theory Spec2Isabelle
  imports Complex_Main
begin

section \<open>Python values\<close>

text \<open>
  The values that travel in request parameters: JSON-shaped Python objects.
  A dict is an association list in insertion order (its keys are distinct;
  lookup takes the first binding). A float is its exact rational value
  (NaN and the infinities are left out).
\<close>

datatype pyval =
    PNone
  | PBool bool
  | PInt int
  | PFloat rat
  | PStr string
  | PList "pyval list"
  | PDict "(string \<times> pyval) list"

text \<open>Python truthiness, as used by \<open>x or y\<close> and \<open>if x\<close>.\<close>

fun truthy :: "pyval \<Rightarrow> bool" where
  "truthy PNone = False"
| "truthy (PBool b) = b"
| "truthy (PInt i) = (i \<noteq> 0)"
| "truthy (PFloat r) = (r \<noteq> 0)"
| "truthy (PStr s) = (s \<noteq> [])"
| "truthy (PList xs) = (xs \<noteq> [])"
| "truthy (PDict kv) = (kv \<noteq> [])"

text \<open>The numeric value of bool, int and float, which Python compares across types.\<close>

fun num_of :: "pyval \<Rightarrow> rat option" where
  "num_of (PBool b) = Some (if b then 1 else 0)"
| "num_of (PInt i) = Some (of_int i)"
| "num_of (PFloat r) = Some r"
| "num_of v = None"

text \<open>Python \<open>==\<close> on these values; dict equality ignores the order of the keys.\<close>

fun py_eq :: "pyval \<Rightarrow> pyval \<Rightarrow> bool"
  and py_eq_list :: "pyval list \<Rightarrow> pyval list \<Rightarrow> bool"
  and py_eq_items :: "(string \<times> pyval) list \<Rightarrow> (string \<times> pyval) list \<Rightarrow> bool" where
  "py_eq (PList xs) (PList ys) = py_eq_list xs ys"
| "py_eq (PDict kv) (PDict kw) = (length kv = length kw \<and> py_eq_items kv kw)"
| "py_eq (PStr s) (PStr t) = (s = t)"
| "py_eq PNone PNone = True"
| "py_eq a b = (case num_of a of None \<Rightarrow> False
                | Some x \<Rightarrow> (case num_of b of None \<Rightarrow> False | Some y \<Rightarrow> x = y))"
| "py_eq_list [] ys = (ys = [])"
| "py_eq_list (x # xs) ys = (case ys of [] \<Rightarrow> False | y # ys' \<Rightarrow> py_eq x y \<and> py_eq_list xs ys')"
| "py_eq_items [] kw = True"
| "py_eq_items ((k, v) # kv) kw =
     (case map_of kw k of None \<Rightarrow> False | Some w \<Rightarrow> py_eq v w \<and> py_eq_items kv kw)"

text \<open>\<open>value in values\<close> on a list: some element equals the value.\<close>

primrec py_in :: "pyval \<Rightarrow> pyval list \<Rightarrow> bool" where
  "py_in v [] = False"
| "py_in v (x # xs) = (py_eq x v \<or> py_in v xs)"

text \<open>Exceptions (instances of Python's \<open>Exception\<close>) as values.\<close>

datatype exn =
    ValueError string
  | AttributeError string
  | IndexError
  | TypeError
  | ExecutionError "string option"
  | OtherError string

text \<open>\<open>value.get(name, None)\<close>: only a dict has the method.\<close>

fun py_get :: "pyval \<Rightarrow> string \<Rightarrow> exn + pyval" where
  "py_get (PDict kv) name = Inr (case map_of kv name of None \<Rightarrow> PNone | Some x \<Rightarrow> x)"
| "py_get v name = Inl (AttributeError ''get'')"

text \<open>\<open>str(i)\<close> for a list index.\<close>

fun str_nat :: "nat \<Rightarrow> string" where
  "str_nat n = (if n < 10 then [''0123456789'' ! n]
                else str_nat (n div 10) @ [''0123456789'' ! (n mod 10)])"

declare str_nat.simps [simp del]

text \<open>\<open>path.lstrip(".")\<close>.\<close>

definition lstrip_dot :: "string \<Rightarrow> string" where
  "lstrip_dot s = dropWhile (\<lambda>c. c = CHR ''.'') s"

section \<open>Schema model\<close>

text \<open>
  Modelled from the spec: the property and type classes of
  \<open>fiftyone.operators.types\<close>, which the executor imports and reads but which
  are not part of the source at hand. A type is an enum with its values, an object
  with its named properties (in declaration order), a list with its element type,
  one of the three checked primitives, or any other type class.
  A property carries its type and the flags \<open>required\<close> and \<open>invalid\<close> with
  the error message.
\<close>

datatype ptype =
    Enum "pyval list"
  | Object "(string \<times> property) list"
  | List_t ptype
  | String_t
  | Number
  | Boolean
  | OtherType
and property =
    Property (prop_type: ptype) (required: bool) (prop_invalid: bool) (prop_error_message: string)

text \<open>
  \<open>types.Property(element_type)\<close>: a property built with the constructor's
  defaults. It is neither required nor invalid; the default error message of the
  constructor is a parameter.
\<close>

definition Property_init :: "string \<Rightarrow> ptype \<Rightarrow> property" where
  "Property_init dm t = Property t False False dm"

section \<open>Validation\<close>

record ValidationError =
  reason :: string
  error_message :: string
  path :: string
  custom :: bool

definition ValidationError_init :: "string \<Rightarrow> property \<Rightarrow> string \<Rightarrow> bool \<Rightarrow> ValidationError" where
  "ValidationError_init r prop p c =
     \<lparr>reason = r, error_message = prop_error_message prop, path = p, custom = c\<rparr>"

text \<open>
  \<open>ValidationContext.add_error\<close>, on the flag \<open>disable_schema_validation\<close> and
  the accumulated list \<open>self.errors\<close>.
\<close>

definition add_error :: "bool \<Rightarrow> ValidationError \<Rightarrow> ValidationError list \<Rightarrow> ValidationError list" where
  "add_error d e errs = (if d \<and> custom e \<noteq> True then errs else errs @ [e])"

text \<open>The callers' \<open>if validation_error is not None: self.add_error(validation_error)\<close>.\<close>

definition add_if_error ::
  "bool \<Rightarrow> ValidationError option \<Rightarrow> ValidationError list \<Rightarrow> ValidationError list" where
  "add_if_error d r errs = (case r of None \<Rightarrow> errs | Some e \<Rightarrow> add_error d e errs)"

definition validate_enum :: "string \<Rightarrow> property \<Rightarrow> pyval \<Rightarrow> exn + ValidationError option" where
  "validate_enum p prop v =
     (case prop_type prop of
        Enum vals \<Rightarrow>
          if \<not> py_in v vals then Inr (Some (ValidationError_init ''Invalid enum value'' prop p False))
          else Inr None
      | _ \<Rightarrow> Inl (AttributeError ''values''))"

definition validate_primitive :: "string \<Rightarrow> property \<Rightarrow> pyval \<Rightarrow> ValidationError option" where
  "validate_primitive p prop v =
     (if prop_type prop = String_t \<and> (case v of PStr _ \<Rightarrow> False | _ \<Rightarrow> True)
        then Some (ValidationError_init ''Invalid value type'' prop p False)
      else if prop_type prop = Number \<and> (case v of PInt _ \<Rightarrow> False | PFloat _ \<Rightarrow> False | _ \<Rightarrow> True)
        then Some (ValidationError_init ''Invalid value type'' prop p False)
      else if prop_type prop = Boolean \<and> (case v of PBool _ \<Rightarrow> False | _ \<Rightarrow> True)
        then Some (ValidationError_init ''Invalid value type'' prop p False)
      else None)"

text \<open>
  The mutually recursive validators. Each takes the default error message of the
  property constructor, the flag \<open>disable_schema_validation\<close>, the path, the
  property, the value and the errors accumulated so far; it returns the exception
  raised, or the returned error (if any) with the accumulated errors.
  The two loops are the \<open>for\<close> loops of \<open>validate_object\<close> and \<open>validate_list\<close>.
\<close>

function
  validate_property ::
    "string \<Rightarrow> bool \<Rightarrow> string \<Rightarrow> property \<Rightarrow> pyval \<Rightarrow> ValidationError list
      \<Rightarrow> exn + (ValidationError option \<times> ValidationError list)"
and validate_object ::
    "string \<Rightarrow> bool \<Rightarrow> string \<Rightarrow> property \<Rightarrow> pyval \<Rightarrow> ValidationError list
      \<Rightarrow> exn + (ValidationError option \<times> ValidationError list)"
and validate_object_loop ::
    "string \<Rightarrow> bool \<Rightarrow> string \<Rightarrow> (string \<times> property) list \<Rightarrow> pyval \<Rightarrow> ValidationError list
      \<Rightarrow> exn + ValidationError list"
and validate_list ::
    "string \<Rightarrow> bool \<Rightarrow> string \<Rightarrow> property \<Rightarrow> pyval \<Rightarrow> ValidationError list
      \<Rightarrow> exn + (ValidationError option \<times> ValidationError list)"
and validate_list_loop ::
    "string \<Rightarrow> bool \<Rightarrow> string \<Rightarrow> ptype \<Rightarrow> nat \<Rightarrow> pyval list \<Rightarrow> ValidationError list
      \<Rightarrow> exn + ValidationError list"
where
  "validate_property dm d p prop v errs =
     (if prop_invalid prop
        then Inr (Some (ValidationError_init (prop_error_message prop) prop p True), errs)
      else if required prop \<and> v = PNone
        then Inr (Some (ValidationError_init ''Required property'' prop p False), errs)
      else if v \<noteq> PNone then
        (case prop_type prop of
           Enum vals \<Rightarrow>
             (case validate_enum p prop v of Inl e \<Rightarrow> Inl e | Inr r \<Rightarrow> Inr (r, errs))
         | Object ps \<Rightarrow> validate_object dm d p prop v errs
         | List_t t \<Rightarrow> validate_list dm d p prop v errs
         | _ \<Rightarrow> Inr (validate_primitive p prop v, errs))
      else Inr (None, errs))"
| "validate_object dm d p prop v errs =
     (if v = PNone then Inr (Some (ValidationError_init ''Invalid object'' prop p False), errs)
      else
        (case prop_type prop of
           Object ps \<Rightarrow>
             (case validate_object_loop dm d p ps v errs of
                Inl e \<Rightarrow> Inl e
              | Inr errs' \<Rightarrow> Inr (None, errs'))
         | _ \<Rightarrow> Inl (AttributeError ''properties'')))"
| "validate_object_loop dm d p [] v errs = Inr errs"
| "validate_object_loop dm d p ((name, prop) # ps) v errs =
     (case py_get v name of
        Inl e \<Rightarrow> Inl e
      | Inr propertyValue \<Rightarrow>
          (case validate_property dm d (p @ ''.'' @ name) prop propertyValue errs of
             Inl e \<Rightarrow> Inl e
           | Inr (r, errs') \<Rightarrow> validate_object_loop dm d p ps v (add_if_error d r errs')))"
| "validate_list dm d p prop v errs =
     (case v of
        PList items \<Rightarrow>
          (case prop_type prop of
             List_t element_type \<Rightarrow>
               (case validate_list_loop dm d p element_type 0 items errs of
                  Inl e \<Rightarrow> Inl e
                | Inr errs' \<Rightarrow> Inr (None, errs'))
           | _ \<Rightarrow> Inl (AttributeError ''element_type''))
      | _ \<Rightarrow> Inr (Some (ValidationError_init ''Invalid list'' prop p False), errs))"
| "validate_list_loop dm d p element_type i [] errs = Inr errs"
| "validate_list_loop dm d p element_type i (item # items) errs =
     (case validate_property dm d (p @ ''['' @ str_nat i @ '']'')
             (Property_init dm element_type) item errs of
        Inl e \<Rightarrow> Inl e
      | Inr (r, errs') \<Rightarrow>
          validate_list_loop dm d p element_type (Suc i) items (add_if_error d r errs'))"
  by pat_completeness auto
termination
  apply (relation "inv_image (less_than <*lex*> less_than)
     (\<lambda>x. case x of
         Inl (Inl (dm, d, p, prop, v, errs)) \<Rightarrow> (size prop, 2::nat)
       | Inl (Inr (dm, d, p, prop, v, errs)) \<Rightarrow> (size prop, 1)
       | Inr (Inl (dm, d, p, ps, v, errs)) \<Rightarrow> (size_list (size_prod (\<lambda>_. 0) size) ps, 0)
       | Inr (Inr (Inl (dm, d, p, prop, v, errs))) \<Rightarrow> (size prop, 1)
       | Inr (Inr (Inr (dm, d, p, t, i, items, errs))) \<Rightarrow> (size t + 1, length items + 3))")
   apply (auto simp: Property_init_def)
  subgoal for pr v ps by (cases pr) simp
  subgoal for pr t by (cases pr) simp
  done

declare validate_property.simps [simp del]
declare validate_object.simps [simp del]
declare validate_list.simps [simp del]

section \<open>Executor and execution context\<close>

record InvocationRequest =
  operator_uri :: string
  inv_params :: pyval

text \<open>\<open>InvocationRequest.__init__\<close>: \<open>self.params = params or {}\<close>.\<close>

definition InvocationRequest_init :: "string \<Rightarrow> pyval \<Rightarrow> InvocationRequest" where
  "InvocationRequest_init uri params =
     \<lparr>operator_uri = uri, inv_params = (if truthy params then params else PDict [])\<rparr>"

record Executor =
  requests :: "InvocationRequest list"
  logs :: "pyval list"

text \<open>\<open>Executor.__init__\<close>: \<open>requests or []\<close>, \<open>logs or []\<close>.\<close>

definition Executor_init :: "InvocationRequest list option \<Rightarrow> pyval list option \<Rightarrow> Executor" where
  "Executor_init rs ls =
     \<lparr>requests = (case rs of None \<Rightarrow> [] | Some r \<Rightarrow> r),
      logs = (case ls of None \<Rightarrow> [] | Some l \<Rightarrow> l)\<rparr>"

text \<open>
  Modelled from the spec: the message classes of \<open>fiftyone.operators.message\<close>,
  which are not part of the source at hand: a message is tagged with its type and
  wraps a body of the named class.
\<close>

datatype MessageType = SUCCESS | ERROR

record GeneratedMessage =
  msg_type :: MessageType
  cls :: string
  body :: InvocationRequest

text \<open>\<open>Executor.trigger\<close>: the message returned and the executor after the append.\<close>

definition Executor_trigger :: "Executor \<Rightarrow> string \<Rightarrow> pyval \<Rightarrow> GeneratedMessage \<times> Executor" where
  "Executor_trigger ex operator_name params =
     (let inv_req = InvocationRequest_init operator_name params
      in (\<lparr>msg_type = SUCCESS, cls = ''InvocationRequest'', body = inv_req\<rparr>,
          ex\<lparr>requests := requests ex @ [inv_req]\<rparr>))"

text \<open>
  The execution context. The Executor it refers to is kept inside the context:
  whoever mutates the Executor through the context returns the context with the
  mutated Executor, and the coordinator, which holds the same object, reads it
  from there.
\<close>

record ExecutionContext =
  request_params :: "(string \<times> pyval) list"
  ctx_params :: pyval
  executor :: "Executor option"
  secrets :: "(string \<times> string) list"

text \<open>
  \<open>ExecutionContext.__init__\<close>: \<open>request_params or {}\<close>, then
  \<open>self.request_params.get("params", {})\<close>.
\<close>

definition ExecutionContext_init ::
  "(string \<times> pyval) list option \<Rightarrow> Executor option \<Rightarrow> ExecutionContext" where
  "ExecutionContext_init rp ex =
     (let rp' = (case rp of None \<Rightarrow> [] | Some r \<Rightarrow> r)
      in \<lparr>request_params = rp',
          ctx_params = (case map_of rp' ''params'' of None \<Rightarrow> PDict [] | Some v \<Rightarrow> v),
          executor = ex,
          secrets = []\<rparr>)"

text \<open>\<open>ExecutionContext.trigger\<close>.\<close>

definition trigger ::
  "ExecutionContext \<Rightarrow> string \<Rightarrow> pyval \<Rightarrow> (exn + GeneratedMessage) \<times> ExecutionContext" where
  "trigger ctx operator_name params =
     (case executor ctx of
        None \<Rightarrow> (Inl (ValueError ''No executor available''), ctx)
      | Some ex \<Rightarrow>
          (let (msg, ex') = Executor_trigger ex operator_name params
           in (Inr msg, ctx\<lparr>executor := Some ex'\<rparr>)))"

text \<open>\<open>ExecutionContext.serialize\<close>.\<close>

definition serialize :: "ExecutionContext \<Rightarrow> pyval" where
  "serialize ctx =
     PDict [(''request_params'', PDict (request_params ctx)), (''params'', ctx_params ctx)]"

text \<open>\<open>self._secrets[key] = value\<close>.\<close>

fun dict_set :: "(string \<times> string) list \<Rightarrow> string \<Rightarrow> string \<Rightarrow> (string \<times> string) list" where
  "dict_set [] k v = [(k, v)]"
| "dict_set ((k', v') # kv) k v = (if k' = k then (k, v) # kv else (k', v') # dict_set kv k v)"

section \<open>Validation context and execution result\<close>

record ValidationContext =
  vctx_ctx :: ExecutionContext
  vctx_params :: pyval
  inputs_property :: "property option"
  errors :: "ValidationError list"
  disable_schema_validation :: bool
  invalid :: bool

text \<open>
  \<open>ValidationContext._validate\<close>, started on the errors accumulated so far
  (the empty list, in the constructor).
\<close>

definition validate ::
  "string \<Rightarrow> bool \<Rightarrow> property \<Rightarrow> pyval \<Rightarrow> ValidationError list \<Rightarrow> exn + ValidationError list" where
  "validate dm d ip ps errs =
     (case validate_property dm d [] ip ps errs of
        Inl e \<Rightarrow> Inl e
      | Inr (validation_error, errs') \<Rightarrow> Inr (add_if_error d validation_error errs'))"

text \<open>
  \<open>ValidationContext.__init__\<close>, on the context, the inputs property (or None)
  and the operator's \<open>config.disable_schema_validation\<close>.
\<close>

definition ValidationContext_init ::
  "string \<Rightarrow> ExecutionContext \<Rightarrow> property option \<Rightarrow> bool \<Rightarrow> exn + ValidationContext" where
  "ValidationContext_init dm ctx ip d =
     (case ip of
        None \<Rightarrow>
          Inr \<lparr>vctx_ctx = ctx, vctx_params = ctx_params ctx, inputs_property = None, errors = [],
               disable_schema_validation = d, invalid = False\<rparr>
      | Some prop \<Rightarrow>
          (case validate dm d prop (ctx_params ctx) [] of
             Inl e \<Rightarrow> Inl e
           | Inr errs \<Rightarrow>
               Inr \<lparr>vctx_ctx = ctx, vctx_params = ctx_params ctx, inputs_property = Some prop,
                    errors = errs, disable_schema_validation = d, invalid = (length errs > 0)\<rparr>))"

record ExecutionResult =
  result :: pyval
  res_executor :: "Executor option"
  error :: "string option"
  validation_ctx :: "ValidationContext option"
  delegated :: bool

text \<open>
  \<open>ExecutionResult.to_exception\<close>: the exception it returns, or the one it raises
  on the way (no validation context, no first error, no base message to extend).
\<close>

definition to_exception :: "ExecutionResult \<Rightarrow> exn + exn" where
  "to_exception r =
     (case validation_ctx r of
        None \<Rightarrow> Inl (AttributeError ''invalid'')
      | Some vc \<Rightarrow>
          if invalid vc then
            (case errors vc of
               [] \<Rightarrow> Inl IndexError
             | val_error # _ \<Rightarrow>
                 (case error r of
                    None \<Rightarrow> Inl TypeError
                  | Some msg \<Rightarrow>
                      Inr (ExecutionError (Some (msg @ ''. Path: '' @ lstrip_dot (path val_error)
                                                   @ ''. Reason: '' @ reason val_error)))))
          else Inr (ExecutionError (error r)))"

section \<open>Operators and the collaborators of the coordinator\<close>

text \<open>
  Modelled from the spec: the operator, with the capabilities the executor uses
  (the operator classes are not part of the source at hand). Every operator-defined
  method may raise, and may mutate the context it is given (and the Executor the
  context holds), so it returns its outcome with the context; it is taken not to
  rebind \<open>ctx.executor\<close>. \<open>execute_is_coroutine\<close> is
  \<open>asyncio.iscoroutinefunction(operator.execute)\<close>.
\<close>

record Operator =
  uri :: string
  plugin_secrets :: "string list option"
  config_disable_schema_validation :: bool
  delegation_target :: pyval
  resolve_input :: "ExecutionContext \<Rightarrow> (exn + property option) \<times> ExecutionContext"
  resolve_delegation :: "ExecutionContext \<Rightarrow> (exn + pyval) \<times> ExecutionContext"
  execute :: "ExecutionContext \<Rightarrow> (exn + pyval) \<times> ExecutionContext"
  execute_is_coroutine :: bool

text \<open>
  Modelled from the spec: the document of a queued operation returned by
  \<open>DelegatedOperationService.queue_operation\<close> (the delegated-operation module is
  not part of the source at hand): its fields include an embeddable context, which
  may be absent.
\<close>

record DelegatedOperationDocument =
  doc_context :: "ExecutionContext option"
  doc_fields :: "(string \<times> pyval) list"

text \<open>
  Modelled from the spec: the external collaborators. The registry maps a URI to
  its operator (\<open>operator_exists\<close> says whether it does, \<open>get_operator\<close>
  returns it); the secrets resolver returns a secret (key and value) or nothing;
  the queue returns the queued document. Each of the latter two may raise.
  \<open>format_exc\<close> stands for \<open>traceback.format_exc()\<close> on the exception being
  handled, and \<open>default_error_message\<close> for the default error message of the
  property constructor.
\<close>

record Env =
  registry :: "string \<Rightarrow> Operator option"
  get_secret :: "string \<Rightarrow> exn + (string \<times> string) option"
  queue_operation :: "string \<Rightarrow> pyval \<Rightarrow> pyval \<Rightarrow> exn + DelegatedOperationDocument"
  format_exc :: "exn \<Rightarrow> string"
  default_error_message :: string

text \<open>
  The calls the coordinator makes to its collaborators, in order. The call to the
  queue is recorded with what is handed off: the operator URI, the serialized
  context and the delegation target.
\<close>

datatype call =
    Call_operator_exists string
  | Call_get_operator string
  | Call_get_secret string
  | Call_resolve_input
  | Call_resolve_delegation
  | Call_queue_operation string pyval pyval
  | Call_execute

text \<open>The loop of \<open>ExecutionContext.resolve_secret_values\<close> over the keys.\<close>

fun resolve_secret_keys ::
  "Env \<Rightarrow> ExecutionContext \<Rightarrow> string list \<Rightarrow> (exn + ExecutionContext) \<times> call list" where
  "resolve_secret_keys env ctx [] = (Inr ctx, [])"
| "resolve_secret_keys env ctx (key # keys) =
     (case get_secret env key of
        Inl e \<Rightarrow> (Inl e, [Call_get_secret key])
      | Inr secret \<Rightarrow>
          (let ctx' = (case secret of
                         None \<Rightarrow> ctx
                       | Some (k, v) \<Rightarrow> ctx\<lparr>secrets := dict_set (secrets ctx) k v\<rparr>);
               (r, calls) = resolve_secret_keys env ctx' keys
           in (r, Call_get_secret key # calls)))"

text \<open>\<open>ExecutionContext.resolve_secret_values\<close>: nothing to do when the keys are None.\<close>

definition resolve_secret_values ::
  "Env \<Rightarrow> ExecutionContext \<Rightarrow> string list option \<Rightarrow> (exn + ExecutionContext) \<times> call list" where
  "resolve_secret_values env ctx keys =
     (case keys of None \<Rightarrow> (Inr ctx, []) | Some ks \<Rightarrow> resolve_secret_keys env ctx ks)"

section \<open>The coordinator\<close>

text \<open>
  What \<open>prepare_operator_executor\<close> returns: an execution result (validation
  failed), or the operator with its context; the executor of the returned triple
  is the one the context holds.
\<close>

datatype prepared = Invalid ExecutionResult | Ready Operator ExecutionContext

definition prepare_operator_executor ::
  "Env \<Rightarrow> string \<Rightarrow> (string \<times> pyval) list \<Rightarrow> (exn + prepared) \<times> call list" where
  "prepare_operator_executor env op_uri rp =
     (case registry env op_uri of
        None \<Rightarrow>
          (Inl (ValueError (''Operator '' @ [CHR 0x27] @ op_uri @ [CHR 0x27]
                              @ '' does not exist'')),
           [Call_operator_exists op_uri])
      | Some operator \<Rightarrow>
          (let calls0 = [Call_operator_exists op_uri, Call_get_operator op_uri];
               ex = Executor_init None None;
               ctx = ExecutionContext_init (Some rp) (Some ex)
           in case resolve_secret_values env ctx (plugin_secrets operator) of
                (Inl e, calls1) \<Rightarrow> (Inl e, calls0 @ calls1)
              | (Inr ctx1, calls1) \<Rightarrow>
                  (case resolve_input operator ctx1 of
                     (Inl e, ctx2) \<Rightarrow> (Inl e, calls0 @ calls1 @ [Call_resolve_input])
                   | (Inr inputs, ctx2) \<Rightarrow>
                       (case ValidationContext_init (default_error_message env) ctx2 inputs
                               (config_disable_schema_validation operator) of
                          Inl e \<Rightarrow> (Inl e, calls0 @ calls1 @ [Call_resolve_input])
                        | Inr vc \<Rightarrow>
                            if invalid vc then
                              (Inr (Invalid \<lparr>result = PNone, res_executor = None,
                                              error = Some ''Validation error'',
                                              validation_ctx = Some vc,
                                              delegated = False\<rparr>),
                               calls0 @ calls1 @ [Call_resolve_input])
                            else (Inr (Ready operator ctx2),
                                  calls0 @ calls1 @ [Call_resolve_input])))))"

text \<open>
  Modelled from the spec: \<open>fiftyone.core.utils.run_sync_task\<close> (not part of the
  source at hand) runs a synchronous function and gives its outcome to the awaiting
  coordinator.
\<close>

definition run_sync_task ::
  "(ExecutionContext \<Rightarrow> (exn + pyval) \<times> ExecutionContext) \<Rightarrow> ExecutionContext
    \<Rightarrow> (exn + pyval) \<times> ExecutionContext" where
  "run_sync_task f ctx = f ctx"

text \<open>
  The snapshot of the queued document placed in the result: \<open>op.__dict__\<close> with
  its context serialized, or None when the context is absent.
\<close>

definition snapshot :: "DelegatedOperationDocument \<Rightarrow> pyval" where
  "snapshot op =
     PDict ((''context'', (case doc_context op of None \<Rightarrow> PNone | Some c \<Rightarrow> serialize c))
            # doc_fields op)"

text \<open>
  \<open>execute_or_delegate_operator\<close>: the result returned or the exception raised,
  with the calls made. The decorator \<open>coroutine_timeout\<close> around it, which bounds
  the wall-clock time of the whole coroutine, is outside this model.
\<close>

definition execute_or_delegate_operator ::
  "Env \<Rightarrow> string \<Rightarrow> (string \<times> pyval) list \<Rightarrow> (exn + ExecutionResult) \<times> call list" where
  "execute_or_delegate_operator env op_uri rp =
     (case prepare_operator_executor env op_uri rp of
        (Inl e, calls) \<Rightarrow> (Inl e, calls)
      | (Inr (Invalid prepared), calls) \<Rightarrow>
          (case to_exception prepared of
             Inl e \<Rightarrow> (Inl e, calls)
           | Inr e \<Rightarrow> (Inl e, calls))
      | (Inr (Ready operator ctx), calls) \<Rightarrow>
          (case resolve_delegation operator ctx of
             (Inl e, ctx') \<Rightarrow> (Inl e, calls @ [Call_resolve_delegation])
           | (Inr dlg, ctx') \<Rightarrow>
               if truthy dlg then
                 (case queue_operation env (uri operator) (serialize ctx')
                         (delegation_target operator) of
                    Inr op \<Rightarrow>
                      (Inr \<lparr>result = snapshot op, res_executor = executor ctx', error = None,
                            validation_ctx = None, delegated = True\<rparr>,
                       calls @ [Call_resolve_delegation,
                                Call_queue_operation (uri operator) (serialize ctx')
                                  (delegation_target operator)])
                  | Inl e \<Rightarrow>
                      (Inr \<lparr>result = PNone, res_executor = executor ctx',
                            error = Some (format_exc env e),
                            validation_ctx = None, delegated = False\<rparr>,
                       calls @ [Call_resolve_delegation,
                                Call_queue_operation (uri operator) (serialize ctx')
                                  (delegation_target operator)]))
               else
                 (case (if execute_is_coroutine operator then execute operator ctx'
                        else run_sync_task (execute operator) ctx') of
                    (Inl e, ctx'') \<Rightarrow>
                      (Inr \<lparr>result = PNone, res_executor = executor ctx'',
                            error = Some (format_exc env e),
                            validation_ctx = None, delegated = False\<rparr>,
                       calls @ [Call_resolve_delegation, Call_execute])
                  | (Inr raw_result, ctx'') \<Rightarrow>
                      (Inr \<lparr>result = raw_result, res_executor = executor ctx'', error = None,
                            validation_ctx = None, delegated = False\<rparr>,
                       calls @ [Call_resolve_delegation, Call_execute]))))"

section \<open>Example operators and environment\<close>

text \<open>
  The inputs of the operator \<open>ns/say_hello\<close>: an object with one required
  string field \<open>name\<close>.
\<close>

definition hello_inputs :: property where
  "hello_inputs =
     Property (Object [(''name'', Property String_t True False ''Invalid'')]) False False ''Invalid''"

text \<open>
  The inputs of the operator \<open>ns/profile\<close>: a required name, an age and an
  address that is itself an object.
\<close>

definition profile_inputs :: property where
  "profile_inputs =
     Property (Object [(''name'', Property String_t True False ''Invalid''),
                       (''age'', Property Number False False ''Invalid''),
                       (''address'',
                          Property (Object [(''city'', Property String_t False False ''Invalid'')])
                            False False ''Invalid'')])
       False False ''Invalid''"

text \<open>
  An operator whose methods ignore the context: each returns the given outcome
  and leaves the context as it is.
\<close>

definition example_operator ::
  "string \<Rightarrow> (exn + property option) \<Rightarrow> (exn + pyval) \<Rightarrow> (exn + pyval) \<Rightarrow> Operator" where
  "example_operator u inp dlg exe =
     \<lparr>uri = u, plugin_secrets = Some [''API_KEY''], config_disable_schema_validation = False,
      delegation_target = PStr ''orchestrator'',
      resolve_input = (\<lambda>ctx. (inp, ctx)),
      resolve_delegation = (\<lambda>ctx. (dlg, ctx)),
      execute = (\<lambda>ctx. (exe, ctx)),
      execute_is_coroutine = False\<rparr>"

definition example_registry :: "string \<Rightarrow> Operator option" where
  "example_registry u =
     (if u = ''ns/say_hello'' then
        Some (example_operator u (Inr (Some hello_inputs)) (Inr (PBool False))
                (Inr (PDict [(''greeting'', PStr ''Hello, Ada'')])))
      else if u = ''ns/profile'' then
        Some (example_operator u (Inr (Some profile_inputs)) (Inr (PBool False)) (Inr PNone))
      else if u = ''ns/delegated'' then
        Some (example_operator u (Inr None) (Inr (PBool True)) (Inr PNone))
      else if u = ''ns/unqueueable'' then
        Some (example_operator u (Inr None) (Inr (PBool True)) (Inr PNone))
      else if u = ''ns/failing'' then
        Some (example_operator u (Inr None) (Inr (PBool False)) (Inl (OtherError ''boom'')))
      else if u = ''ns/undecided'' then
        Some (example_operator u (Inr None) (Inl (OtherError ''no decision'')) (Inr PNone))
      else if u = ''ns/no_schema'' then
        Some (example_operator u (Inl (OtherError ''no schema'')) (Inr (PBool False)) (Inr PNone))
      else None)"

text \<open>
  The context an example queue embeds in its document: rebuilt from the request
  parameters of the serialized context it was handed, absent when there are none.
\<close>

definition context_of_serialized :: "pyval \<Rightarrow> ExecutionContext option" where
  "context_of_serialized c =
     (case c of
        PDict kv \<Rightarrow>
          (case map_of kv ''request_params'' of
             Some (PDict rp) \<Rightarrow> Some (ExecutionContext_init (Some rp) None)
           | _ \<Rightarrow> None)
      | _ \<Rightarrow> None)"

text \<open>
  An environment with no secrets, whose queue accepts every operator but
  \<open>ns/unqueueable\<close>; the document it returns records the operator and the
  delegation target it was handed, and embeds the context it was handed.
\<close>

definition example_env :: Env where
  "example_env =
     \<lparr>registry = example_registry,
      get_secret = (\<lambda>key. Inr None),
      queue_operation = (\<lambda>u c t.
         if u = ''ns/unqueueable'' then Inl (OtherError ''queue down'')
         else Inr \<lparr>doc_context = context_of_serialized c,
                   doc_fields = [(''operator'', PStr u), (''delegation_target'', t),
                                 (''run_state'', PStr ''queued'')]\<rparr>),
      format_exc = (\<lambda>e. ''Traceback (most recent call last)''),
      default_error_message = ''Invalid''\<rparr>"

section \<open>Validation only appends to the accumulated errors\<close>

lemma add_if_error_append: "add_if_error d r (errs @ es) = errs @ add_if_error d r es"
  by (simp add: add_if_error_def add_error_def split: option.splits)

lemma validate_append_all:
  fixes errs :: "ValidationError list"
  shows
  "\<forall>errs0. validate_property dm d p pr v errs0 =
     (case validate_property dm d p pr v [] of Inl e \<Rightarrow> Inl e | Inr (r, es) \<Rightarrow> Inr (r, errs0 @ es))"
  and "\<forall>errs0. validate_object dm d p pr v errs0 =
     (case validate_object dm d p pr v [] of Inl e \<Rightarrow> Inl e | Inr (r, es) \<Rightarrow> Inr (r, errs0 @ es))"
  and "\<forall>errs0. validate_object_loop dm d p ps v errs0 =
     (case validate_object_loop dm d p ps v [] of Inl e \<Rightarrow> Inl e | Inr es \<Rightarrow> Inr (errs0 @ es))"
  and "\<forall>errs0. validate_list dm d p pr v errs0 =
     (case validate_list dm d p pr v [] of Inl e \<Rightarrow> Inl e | Inr (r, es) \<Rightarrow> Inr (r, errs0 @ es))"
  and "\<forall>errs0. validate_list_loop dm d p t i items errs0 =
     (case validate_list_loop dm d p t i items [] of Inl e \<Rightarrow> Inl e | Inr es \<Rightarrow> Inr (errs0 @ es))"
proof (induction dm d p pr v errs and dm d p pr v errs and dm d p ps v errs
         and dm d p pr v errs and dm d p t i items errs
       rule: validate_property_validate_object_validate_object_loop_validate_list_validate_list_loop.induct)
  case (1 dm d p pr v errs)
  show ?case
  proof
    fix errs0
    show "validate_property dm d p pr v errs0 =
      (case validate_property dm d p pr v [] of Inl e \<Rightarrow> Inl e | Inr (r, es) \<Rightarrow> Inr (r, errs0 @ es))"
      using 1
      by (simp add: validate_property.simps[of dm d p "pr" v] split: ptype.splits sum.splits)
  qed
next
  case (2 dm d p pr v errs)
  show ?case
  proof
    fix errs0
    show "validate_object dm d p pr v errs0 =
      (case validate_object dm d p pr v [] of Inl e \<Rightarrow> Inl e | Inr (r, es) \<Rightarrow> Inr (r, errs0 @ es))"
    proof (cases "v \<noteq> PNone \<and> (\<exists>ps. prop_type pr = Object ps)")
      case True
      then obtain ps where ps: "v \<noteq> PNone" "prop_type pr = Object ps" by blast
      from 2[OF ps] have ih: "\<And>e0. validate_object_loop dm d p ps v e0 =
          (case validate_object_loop dm d p ps v [] of Inl e \<Rightarrow> Inl e | Inr es \<Rightarrow> Inr (e0 @ es))"
        by blast
      show ?thesis
        using ps by (simp add: validate_object.simps[of dm d p "pr" v] ih[of errs0] split: sum.splits)
    next
      case False
      then show ?thesis
        by (auto simp add: validate_object.simps[of dm d p "pr" v] split: ptype.splits)
    qed
  qed
next
  case (3 dm d p v errs)
  show ?case by simp
next
  case (4 dm d p name pr ps v errs)
  show ?case
  proof
    fix errs0
    show "validate_object_loop dm d p ((name, pr) # ps) v errs0 =
      (case validate_object_loop dm d p ((name, pr) # ps) v [] of Inl e \<Rightarrow> Inl e | Inr es \<Rightarrow> Inr (errs0 @ es))"
    proof (cases "py_get v name")
      case (Inl e)
      then show ?thesis by simp
    next
      case (Inr b)
      from 4(1)[OF Inr] have ih1: "\<And>e0. validate_property dm d (p @ ''.'' @ name) pr b e0 =
         (case validate_property dm d (p @ ''.'' @ name) pr b [] of Inl e \<Rightarrow> Inl e | Inr (r, es) \<Rightarrow> Inr (r, e0 @ es))"
        by blast
      show ?thesis
      proof (cases "validate_property dm d (p @ ''.'' @ name) pr b []")
        case (Inl e)
        then show ?thesis using Inr ih1[of errs0] by simp
      next
        case r: (Inr res)
        obtain r es where res: "res = (r, es)" by (cases res)
        have at_errs: "validate_property dm d (p @ ''.'' @ name) pr b errs = Inr (r, errs @ es)"
          using ih1[of errs] r res by simp
        from 4(2)[OF Inr at_errs refl] have ih2: "\<And>e0. validate_object_loop dm d p ps v e0 =
          (case validate_object_loop dm d p ps v [] of Inl e \<Rightarrow> Inl e | Inr es \<Rightarrow> Inr (e0 @ es))"
          by blast
        show ?thesis
          using Inr r res ih1[of errs0]
          by (simp add: ih2[of "errs0 @ add_if_error d r es"] ih2[of "add_if_error d r es"]
                add_if_error_append split: sum.splits)
      qed
    qed
  qed
next
  case (5 dm d p pr v errs)
  show ?case
  proof
    fix errs0
    show "validate_list dm d p pr v errs0 =
      (case validate_list dm d p pr v [] of Inl e \<Rightarrow> Inl e | Inr (r, es) \<Rightarrow> Inr (r, errs0 @ es))"
    proof (cases "\<exists>items t. v = PList items \<and> prop_type pr = List_t t")
      case True
      then obtain items t where vt: "v = PList items" "prop_type pr = List_t t" by blast
      from 5[OF vt] have ih: "\<And>e0. validate_list_loop dm d p t 0 items e0 =
          (case validate_list_loop dm d p t 0 items [] of Inl e \<Rightarrow> Inl e | Inr es \<Rightarrow> Inr (e0 @ es))"
        by blast
      show ?thesis
        using vt by (simp add: validate_list.simps[of dm d p "pr"] ih[of errs0] split: sum.splits)
    next
      case False
      then show ?thesis
        by (auto simp add: validate_list.simps[of dm d p "pr" v] split: ptype.splits pyval.splits)
    qed
  qed
next
  case (6 dm d p t i errs)
  show ?case by simp
next
  case (7 dm d p t i item items errs)
  show ?case
  proof
    fix errs0
    let ?q = "p @ ''['' @ str_nat i @ '']''"
    from 7(1) have ih1: "\<And>e0. validate_property dm d ?q (Property_init dm t) item e0 =
         (case validate_property dm d ?q (Property_init dm t) item [] of Inl e \<Rightarrow> Inl e | Inr (r, es) \<Rightarrow> Inr (r, e0 @ es))"
      by blast
    show "validate_list_loop dm d p t i (item # items) errs0 =
      (case validate_list_loop dm d p t i (item # items) [] of Inl e \<Rightarrow> Inl e | Inr es \<Rightarrow> Inr (errs0 @ es))"
    proof (cases "validate_property dm d ?q (Property_init dm t) item []")
      case (Inl e)
      then show ?thesis using ih1[of errs0] by simp
    next
      case r: (Inr res)
      obtain r es where res: "res = (r, es)" by (cases res)
      have at_errs: "validate_property dm d ?q (Property_init dm t) item errs = Inr (r, errs @ es)"
        using ih1[of errs] r res by simp
      from 7(2)[OF at_errs refl] have ih2: "\<And>e0. validate_list_loop dm d p t (Suc i) items e0 =
          (case validate_list_loop dm d p t (Suc i) items [] of Inl e \<Rightarrow> Inl e | Inr es \<Rightarrow> Inr (e0 @ es))"
        by blast
      show ?thesis
        using r res ih1[of errs0]
        by (simp add: ih2[of "errs0 @ add_if_error d r es"] ih2[of "add_if_error d r es"]
              add_if_error_append split: sum.splits)
    qed
  qed
qed

section \<open>Triggering from an execution context\<close>

text \<open>
  C9. \<open>trigger\<close> on a context constructed without an Executor raises
  \<open>ValueError("No executor available")\<close> and leaves the context as it is. On a
  context with an Executor it appends exactly one invocation request to the end of
  the Executor's request list, leaves the logs alone, and returns a message tagged
  \<open>SUCCESS\<close> whose body is that request. The request holds the operator name
  and \<open>params or {}\<close>: the given parameters whenever they are a dict.
\<close>

theorem trigger_appends_one_request:
  "(executor ctx = None \<longrightarrow>
      trigger ctx name ps = (Inl (ValueError ''No executor available''), ctx))
   \<and> (\<forall>ex. executor ctx = Some ex \<longrightarrow>
        (\<exists>req.
           trigger ctx name ps =
             (Inr \<lparr>msg_type = SUCCESS, cls = ''InvocationRequest'', body = req\<rparr>,
              ctx\<lparr>executor := Some (ex\<lparr>requests := requests ex @ [req]\<rparr>)\<rparr>)
           \<and> operator_uri req = name
           \<and> inv_params req = (if truthy ps then ps else PDict [])
           \<and> (\<forall>kv. ps = PDict kv \<longrightarrow> inv_params req = ps)))"
proof (intro conjI allI impI)
  assume "executor ctx = None"
  then show "trigger ctx name ps = (Inl (ValueError ''No executor available''), ctx)"
    by (simp add: trigger_def)
next
  fix ex
  assume ex: "executor ctx = Some ex"
  let ?req = "InvocationRequest_init name ps"
  have "trigger ctx name ps =
          (Inr \<lparr>msg_type = SUCCESS, cls = ''InvocationRequest'', body = ?req\<rparr>,
           ctx\<lparr>executor := Some (ex\<lparr>requests := requests ex @ [?req]\<rparr>)\<rparr>)"
    using ex by (simp add: trigger_def Executor_trigger_def Let_def)
  moreover have "operator_uri ?req = name"
    by (simp add: InvocationRequest_init_def)
  moreover have "inv_params ?req = (if truthy ps then ps else PDict [])"
    by (simp add: InvocationRequest_init_def)
  moreover have "\<forall>kv. ps = PDict kv \<longrightarrow> inv_params ?req = ps"
    by (auto simp: InvocationRequest_init_def)
  ultimately show "\<exists>req.
           trigger ctx name ps =
             (Inr \<lparr>msg_type = SUCCESS, cls = ''InvocationRequest'', body = req\<rparr>,
              ctx\<lparr>executor := Some (ex\<lparr>requests := requests ex @ [req]\<rparr>)\<rparr>)
           \<and> operator_uri req = name
           \<and> inv_params req = (if truthy ps then ps else PDict [])
           \<and> (\<forall>kv. ps = PDict kv \<longrightarrow> inv_params req = ps)"
    by blast
qed

theorem trigger_appends_one_request_witness:
  "trigger (ExecutionContext_init None None) ''console_log'' (PDict [(''message'', PStr ''hi'')])
     = (Inl (ValueError ''No executor available''), ExecutionContext_init None None)
   \<and> fst (trigger (ExecutionContext_init None (Some (Executor_init None None)))
            ''console_log'' (PDict [(''message'', PStr ''hi'')]))
     = Inr \<lparr>msg_type = SUCCESS, cls = ''InvocationRequest'',
            body = \<lparr>operator_uri = ''console_log'',
                    inv_params = PDict [(''message'', PStr ''hi'')]\<rparr>\<rparr>
   \<and> map_option requests
        (executor (snd (trigger (ExecutionContext_init None (Some (Executor_init None None)))
            ''console_log'' (PDict [(''message'', PStr ''hi'')]))))
     = Some [\<lparr>operator_uri = ''console_log'',
              inv_params = PDict [(''message'', PStr ''hi'')]\<rparr>]"
  using trigger_appends_one_request
          [of "ExecutionContext_init None None" "''console_log''"
              "PDict [(''message'', PStr ''hi'')]"]
        trigger_appends_one_request
          [of "ExecutionContext_init None (Some (Executor_init None None))" "''console_log''"
              "PDict [(''message'', PStr ''hi'')]"]
  by (auto simp: ExecutionContext_init_def Executor_init_def)

section \<open>Required properties\<close>

text \<open>
  C10. For a property that is required and not marked invalid, an absent value
  (None, or a key missing from the enclosing dict) makes \<open>validate_property\<close>
  return exactly one error, "Required property", at the path of the property,
  and leaves the accumulated errors untouched: nothing beneath the property is
  validated. At the root the validation therefore yields that single error, and
  in an object the loop records it at \<open>p.name\<close> and goes on with the siblings.
\<close>

theorem required_absent_one_error:
  "required pr \<and> \<not> prop_invalid pr \<longrightarrow>
     validate_property dm d p pr PNone errs =
       Inr (Some \<lparr>reason = ''Required property'', error_message = prop_error_message pr,
                  path = p, custom = False\<rparr>, errs)
     \<and> validate dm False pr PNone [] =
       Inr [\<lparr>reason = ''Required property'', error_message = prop_error_message pr,
             path = [], custom = False\<rparr>]
     \<and> (map_of kv name = None \<or> map_of kv name = Some PNone \<longrightarrow>
          validate_object_loop dm False p ((name, pr) # ps) (PDict kv) errs =
          validate_object_loop dm False p ps (PDict kv)
            (errs @ [\<lparr>reason = ''Required property'', error_message = prop_error_message pr,
                       path = p @ ''.'' @ name, custom = False\<rparr>]))"
proof (intro impI)
  assume a: "required pr \<and> \<not> prop_invalid pr"
  have vp: "\<And>q es. validate_property dm d' q pr PNone es =
       Inr (Some \<lparr>reason = ''Required property'', error_message = prop_error_message pr,
                  path = q, custom = False\<rparr>, es)" for d'
    using a by (simp add: validate_property.simps ValidationError_init_def)
  have root: "validate dm False pr PNone [] =
       Inr [\<lparr>reason = ''Required property'', error_message = prop_error_message pr,
             path = [], custom = False\<rparr>]"
    by (simp add: validate_def vp add_if_error_def add_error_def)
  have field: "map_of kv name = None \<or> map_of kv name = Some PNone \<longrightarrow>
          validate_object_loop dm False p ((name, pr) # ps) (PDict kv) errs =
          validate_object_loop dm False p ps (PDict kv)
            (errs @ [\<lparr>reason = ''Required property'', error_message = prop_error_message pr,
                       path = p @ ''.'' @ name, custom = False\<rparr>])"
    by (auto simp: vp add_if_error_def add_error_def)
  from vp[of d p errs] root field
  show "validate_property dm d p pr PNone errs =
       Inr (Some \<lparr>reason = ''Required property'', error_message = prop_error_message pr,
                  path = p, custom = False\<rparr>, errs)
     \<and> validate dm False pr PNone [] =
       Inr [\<lparr>reason = ''Required property'', error_message = prop_error_message pr,
             path = [], custom = False\<rparr>]
     \<and> (map_of kv name = None \<or> map_of kv name = Some PNone \<longrightarrow>
          validate_object_loop dm False p ((name, pr) # ps) (PDict kv) errs =
          validate_object_loop dm False p ps (PDict kv)
            (errs @ [\<lparr>reason = ''Required property'', error_message = prop_error_message pr,
                       path = p @ ''.'' @ name, custom = False\<rparr>]))"
    by blast
qed

theorem required_absent_one_error_witness:
  "validate_property ''Invalid'' False [] (Property String_t True False ''Invalid'') PNone []
     = Inr (Some \<lparr>reason = ''Required property'', error_message = ''Invalid'',
                  path = [], custom = False\<rparr>, [])
   \<and> validate_object_loop ''Invalid'' False []
        [(''name'', Property String_t True False ''Invalid'')] (PDict []) []
     = Inr [\<lparr>reason = ''Required property'', error_message = ''Invalid'',
             path = ''.name'', custom = False\<rparr>]"
proof -
  have h: "required (Property String_t True False ''Invalid'')
           \<and> \<not> prop_invalid (Property String_t True False ''Invalid'')"
    by simp
  have m: "map_of ([] :: (string \<times> pyval) list) ''name'' = None
           \<or> map_of ([] :: (string \<times> pyval) list) ''name'' = Some PNone"
    by simp
  from required_absent_one_error
         [of "Property String_t True False ''Invalid''" "''Invalid''" False "[]" "[]"
             "[]" "''name''" "[]"] h m
  show ?thesis
    by simp
qed

section \<open>Siblings and list elements are all validated\<close>







section \<open>Disabled schema validation\<close>

lemma add_if_error_kept:
  "\<forall>e\<in>set es. d \<longrightarrow> custom e \<Longrightarrow> \<forall>e\<in>set (add_if_error d r es). d \<longrightarrow> custom e"
  by (auto simp: add_if_error_def add_error_def split: option.splits if_splits)

lemma validate_object_loop_from_nil:
  "validate_object_loop dm d p ps v errs =
     (case validate_object_loop dm d p ps v [] of Inl e \<Rightarrow> Inl e | Inr es \<Rightarrow> Inr (errs @ es))"
  using validate_append_all(3)[of dm d p ps v, THEN spec, of errs] .

lemma validate_list_loop_from_nil:
  "validate_list_loop dm d p t i items errs =
     (case validate_list_loop dm d p t i items [] of Inl e \<Rightarrow> Inl e | Inr es \<Rightarrow> Inr (errs @ es))"
  using validate_append_all(5)[of dm d p t i items, THEN spec, of errs] .

lemma accumulated_errors_kept:
  fixes errs :: "ValidationError list"
  shows "\<forall>r es. validate_property dm d p pr v [] = Inr (r, es) \<longrightarrow> (\<forall>e\<in>set es. d \<longrightarrow> custom e)"
  and "\<forall>r es. validate_object dm d p pr v [] = Inr (r, es) \<longrightarrow> (\<forall>e\<in>set es. d \<longrightarrow> custom e)"
  and "\<forall>es. validate_object_loop dm d p ps v [] = Inr es \<longrightarrow> (\<forall>e\<in>set es. d \<longrightarrow> custom e)"
  and "\<forall>r es. validate_list dm d p pr v [] = Inr (r, es) \<longrightarrow> (\<forall>e\<in>set es. d \<longrightarrow> custom e)"
  and "\<forall>es. validate_list_loop dm d p t i items [] = Inr es \<longrightarrow> (\<forall>e\<in>set es. d \<longrightarrow> custom e)"
proof (induction dm d p pr v errs and dm d p pr v errs and dm d p ps v errs
         and dm d p pr v errs and dm d p t i items errs
       rule: validate_property_validate_object_validate_object_loop_validate_list_validate_list_loop.induct)
  case (1 dm d p pr v errs)
  show ?case
    using 1
    by (auto simp: validate_property.simps[of dm d p pr v] split: if_splits ptype.splits sum.splits)
next
  case (2 dm d p pr v errs)
  show ?case
    using 2
    by (auto simp: validate_object.simps[of dm d p pr v] split: if_splits ptype.splits sum.splits)
next
  case (3 dm d p v errs)
  show ?case by simp
next
  case (4 dm d p name pr ps v errs)
  show ?case
  proof (intro allI impI)
    fix es
    assume run: "validate_object_loop dm d p ((name, pr) # ps) v [] = Inr es"
    then obtain b where b: "py_get v name = Inr b"
      by (cases "py_get v name") auto
    from run b obtain r es1 where
      vp: "validate_property dm d (p @ ''.'' @ name) pr b [] = Inr (r, es1)"
      by (cases "validate_property dm d (p @ ''.'' @ name) pr b []") auto
    from run b vp have rest: "validate_object_loop dm d p ps v (add_if_error d r es1) = Inr es"
      by simp
    then obtain es2 where es2: "validate_object_loop dm d p ps v [] = Inr es2"
      and es: "es = add_if_error d r es1 @ es2"
      using validate_object_loop_from_nil[of dm d p ps v "add_if_error d r es1"]
      by (cases "validate_object_loop dm d p ps v []") auto
    have at_errs: "validate_property dm d (p @ ''.'' @ name) pr b errs = Inr (r, errs @ es1)"
      using validate_append_all(1)[of dm d "p @ ''.'' @ name" pr b, THEN spec, of errs] vp
      by simp
    from 4(1)[OF b] vp have k1: "\<forall>e\<in>set es1. d \<longrightarrow> custom e" by blast
    from 4(2)[OF b at_errs refl] es2 have k2: "\<forall>e\<in>set es2. d \<longrightarrow> custom e" by blast
    from add_if_error_kept[OF k1, of r] k2 es
    show "\<forall>e\<in>set es. d \<longrightarrow> custom e" by auto
  qed
next
  case (5 dm d p pr v errs)
  show ?case
    using 5
    by (auto simp: validate_list.simps[of dm d p pr v] split: pyval.splits ptype.splits sum.splits)
next
  case (6 dm d p t i errs)
  show ?case by simp
next
  case (7 dm d p t i item items errs)
  let ?q = "p @ ''['' @ str_nat i @ '']''"
  show ?case
  proof (intro allI impI)
    fix es
    assume run: "validate_list_loop dm d p t i (item # items) [] = Inr es"
    then obtain r es1 where
      vp: "validate_property dm d ?q (Property_init dm t) item [] = Inr (r, es1)"
      by (cases "validate_property dm d ?q (Property_init dm t) item []") auto
    from run vp have rest:
      "validate_list_loop dm d p t (Suc i) items (add_if_error d r es1) = Inr es"
      by simp
    then obtain es2 where es2: "validate_list_loop dm d p t (Suc i) items [] = Inr es2"
      and es: "es = add_if_error d r es1 @ es2"
      using validate_list_loop_from_nil[of dm d p t "Suc i" items "add_if_error d r es1"]
      by (cases "validate_list_loop dm d p t (Suc i) items []") auto
    have at_errs: "validate_property dm d ?q (Property_init dm t) item errs = Inr (r, errs @ es1)"
      using validate_append_all(1)[of dm d ?q "Property_init dm t" item, THEN spec, of errs] vp
      by simp
    from 7(1) vp have k1: "\<forall>e\<in>set es1. d \<longrightarrow> custom e" by blast
    from 7(2)[OF at_errs refl] es2 have k2: "\<forall>e\<in>set es2. d \<longrightarrow> custom e" by blast
    from add_if_error_kept[OF k1, of r] k2 es
    show "\<forall>e\<in>set es. d \<longrightarrow> custom e" by auto
  qed
qed

lemma validate_errors_custom:
  assumes "validate dm True ip v [] = Inr es"
  shows "\<forall>e\<in>set es. custom e"
proof -
  from assms obtain r es1 where vp: "validate_property dm True [] ip v [] = Inr (r, es1)"
    and es: "es = add_if_error True r es1"
    by (auto simp: validate_def split: sum.splits)
  from accumulated_errors_kept(1)[of dm True "[]" ip v] vp
  have "\<forall>e\<in>set es1. True \<longrightarrow> custom e" by blast
  from add_if_error_kept[OF this, of r] es show ?thesis by simp
qed

text \<open>
  C8. With schema validation disabled, \<open>add_error\<close> drops every error whose
  \<open>custom\<close> flag is not set and appends every error whose flag is set. A
  property marked invalid makes \<open>validate_property\<close> return an error with the
  flag set (reason and message are the property's error message, at the
  property's path), so that error is retained, at the root and in an object
  field alike. Every error of a validation context built with validation disabled
  is therefore custom: such a context is invalid only through custom errors.
\<close>

theorem disabled_validation_keeps_only_custom:
  "(\<not> custom e \<longrightarrow> add_error True e errs = errs)
   \<and> (custom e \<longrightarrow> add_error True e errs = errs @ [e])
   \<and> (prop_invalid pr \<longrightarrow>
        validate_property dm True p pr v errs =
          Inr (Some \<lparr>reason = prop_error_message pr, error_message = prop_error_message pr,
                     path = p, custom = True\<rparr>, errs)
        \<and> validate dm True pr v [] =
          Inr [\<lparr>reason = prop_error_message pr, error_message = prop_error_message pr,
                path = [], custom = True\<rparr>]
        \<and> validate_object_loop dm True p ((name, pr) # ps) (PDict kv) errs =
          validate_object_loop dm True p ps (PDict kv)
            (errs @ [\<lparr>reason = prop_error_message pr, error_message = prop_error_message pr,
                       path = p @ ''.'' @ name, custom = True\<rparr>]))
   \<and> (\<forall>vc. ValidationContext_init dm ctx ip True = Inr vc \<longrightarrow>
          (\<forall>x\<in>set (errors vc). custom x)
          \<and> (invalid vc \<longrightarrow> (\<exists>x\<in>set (errors vc). custom x)))"
proof (intro conjI impI allI)
  assume "\<not> custom e"
  then show "add_error True e errs = errs" by (simp add: add_error_def)
next
  assume "custom e"
  then show "add_error True e errs = errs @ [e]" by (simp add: add_error_def)
next
  assume iv: "prop_invalid pr"
  have vp: "validate_property dm True q pr w es =
          Inr (Some \<lparr>reason = prop_error_message pr, error_message = prop_error_message pr,
                     path = q, custom = True\<rparr>, es)" for q w es
    using iv by (simp add: validate_property.simps ValidationError_init_def)
  show "validate_property dm True p pr v errs =
          Inr (Some \<lparr>reason = prop_error_message pr, error_message = prop_error_message pr,
                     path = p, custom = True\<rparr>, errs)"
    by (rule vp)
  show "validate dm True pr v [] =
          Inr [\<lparr>reason = prop_error_message pr, error_message = prop_error_message pr,
                path = [], custom = True\<rparr>]"
    by (simp add: validate_def vp add_if_error_def add_error_def)
  show "validate_object_loop dm True p ((name, pr) # ps) (PDict kv) errs =
          validate_object_loop dm True p ps (PDict kv)
            (errs @ [\<lparr>reason = prop_error_message pr, error_message = prop_error_message pr,
                       path = p @ ''.'' @ name, custom = True\<rparr>])"
    by (simp add: vp add_if_error_def add_error_def)
next
  fix vc
  assume vc: "ValidationContext_init dm ctx ip True = Inr vc"
  show all: "\<forall>x\<in>set (errors vc). custom x"
  proof (cases ip)
    case None
    with vc show ?thesis by (auto simp: ValidationContext_init_def)
  next
    case (Some pr')
    with vc obtain es where es: "validate dm True pr' (ctx_params ctx) [] = Inr es"
      and "errors vc = es"
      by (auto simp: ValidationContext_init_def split: sum.splits)
    with validate_errors_custom[OF es] show ?thesis by simp
  qed
  assume "invalid vc"
  with vc have "errors vc \<noteq> []"
    by (auto simp: ValidationContext_init_def split: option.splits sum.splits)
  then obtain x where "x \<in> set (errors vc)" by (cases "errors vc") auto
  with all show "\<exists>x\<in>set (errors vc). custom x" by blast
qed

theorem disabled_validation_keeps_only_custom_witness:
  "add_error True \<lparr>reason = ''Invalid value type'', error_message = ''Invalid'',
                    path = ''.a'', custom = False\<rparr> [] = []
   \<and> add_error True \<lparr>reason = ''bad'', error_message = ''bad'',
                      path = ''.b'', custom = True\<rparr> []
       = [\<lparr>reason = ''bad'', error_message = ''bad'', path = ''.b'', custom = True\<rparr>]
   \<and> validate_property ''Invalid'' True ''.b'' (Property Number False True ''bad'') (PInt 1) []
       = Inr (Some \<lparr>reason = ''bad'', error_message = ''bad'', path = ''.b'', custom = True\<rparr>, [])
   \<and> (\<exists>vc. ValidationContext_init ''Invalid''
               (ExecutionContext_init (Some [(''params'', PDict [(''a'', PInt 5), (''b'', PInt 1)])]) None)
               (Some (Property (Object [(''a'', Property String_t False False ''Invalid''),
                                        (''b'', Property Number False True ''bad'')])
                        False False ''Invalid'')) True = Inr vc
            \<and> invalid vc
            \<and> errors vc = [\<lparr>reason = ''bad'', error_message = ''bad'', path = ''.b'',
                              custom = True\<rparr>]
            \<and> (\<forall>x\<in>set (errors vc). custom x))"
proof -
  let ?ea = "\<lparr>reason = ''Invalid value type'', error_message = ''Invalid'',
               path = ''.a'', custom = False\<rparr>"
  let ?eb = "\<lparr>reason = ''bad'', error_message = ''bad'', path = ''.b'', custom = True\<rparr>"
  let ?ctx = "ExecutionContext_init (Some [(''params'', PDict [(''a'', PInt 5), (''b'', PInt 1)])]) None"
  let ?ip = "Property (Object [(''a'', Property String_t False False ''Invalid''),
                               (''b'', Property Number False True ''bad'')])
               False False ''Invalid''"
  have run: "ValidationContext_init ''Invalid'' ?ctx (Some ?ip) True =
     Inr \<lparr>vctx_ctx = ?ctx, vctx_params = PDict [(''a'', PInt 5), (''b'', PInt 1)],
          inputs_property = Some ?ip, errors = [?eb],
          disable_schema_validation = True, invalid = True\<rparr>"
    by (simp add: ValidationContext_init_def ExecutionContext_init_def validate_def
          validate_property.simps validate_object.simps validate_primitive_def
          ValidationError_init_def add_if_error_def add_error_def)
  have a: "\<not> custom ?ea" and b: "custom ?eb" and iv: "prop_invalid (Property Number False True ''bad'')"
    by simp_all
  from disabled_validation_keeps_only_custom
         [of ?ea "[]" "Property Number False True ''bad''" "''Invalid''" "''.b''" "PInt 1"
             "''b''" "[]" "[]" ?ctx "Some ?ip"] a
  have 1: "add_error True ?ea [] = []" by blast
  from disabled_validation_keeps_only_custom
         [of ?eb "[]" "Property Number False True ''bad''" "''Invalid''" "''.b''" "PInt 1"
             "''b''" "[]" "[]" ?ctx "Some ?ip"] b iv run
  have 2: "add_error True ?eb [] = [?eb]"
    and 3: "validate_property ''Invalid'' True ''.b'' (Property Number False True ''bad'') (PInt 1) []
       = Inr (Some ?eb, [])"
    and 4: "\<forall>x\<in>set [?eb]. custom x"
    by auto
  from 1 2 3 4 run show ?thesis by simp
qed

section \<open>Objects given a value that is not a dict\<close>

lemma py_get_not_dict: "\<forall>kv. v \<noteq> PDict kv \<Longrightarrow> py_get v name = Inl (AttributeError ''get'')"
  by (cases v) auto

lemma validate_object_not_dict:
  assumes "v \<noteq> PNone" and "\<forall>kv. v \<noteq> PDict kv" and "prop_type pr = Object ps"
  shows "validate_object dm d p pr v errs =
           (if ps = [] then Inr (None, errs) else Inl (AttributeError ''get''))"
proof (cases ps)
  case Nil
  with assms show ?thesis by (simp add: validate_object.simps)
next
  case (Cons x ps')
  obtain name child where "x = (name, child)" by (cases x)
  with Cons assms py_get_not_dict[OF assms(2), of name] show ?thesis
    by (simp add: validate_object.simps)
qed

text \<open>
  C4. The code at the failing input. Against the inputs of \<open>ns/profile\<close>, whose
  \<open>address\<close> is an object, the parameters
  \<open>{"name": "Ada", "address": "Paris"}\<close> make the validation raise
  \<open>AttributeError\<close> (a string has no \<open>get\<close>), and the exception leaves the
  coordinator; no validation error is recorded at \<open>.address\<close>. When the object
  declares no property at all, the same value passes without any error.
\<close>

theorem object_given_string_raises:
  "validate ''Invalid'' False profile_inputs
      (PDict [(''name'', PStr ''Ada''), (''address'', PStr ''Paris'')]) []
     = Inl (AttributeError ''get'')
   \<and> fst (execute_or_delegate_operator example_env ''ns/profile''
            [(''params'', PDict [(''name'', PStr ''Ada''), (''address'', PStr ''Paris'')])])
     = Inl (AttributeError ''get'')
   \<and> validate ''Invalid'' False
        (Property (Object [(''address'', Property (Object []) False False ''Invalid'')])
           False False ''Invalid'')
        (PDict [(''address'', PStr ''Paris'')]) []
     = Inr []"
proof -
  have v: "validate ''Invalid'' False profile_inputs
      (PDict [(''name'', PStr ''Ada''), (''address'', PStr ''Paris'')]) []
     = Inl (AttributeError ''get'')"
    by (simp add: validate_def profile_inputs_def validate_property.simps validate_object.simps
          validate_primitive_def add_if_error_def)
  have c: "fst (execute_or_delegate_operator example_env ''ns/profile''
            [(''params'', PDict [(''name'', PStr ''Ada''), (''address'', PStr ''Paris'')])])
     = Inl (AttributeError ''get'')"
    by (simp add: execute_or_delegate_operator_def prepare_operator_executor_def
          example_env_def example_registry_def example_operator_def resolve_secret_values_def
          ValidationContext_init_def ExecutionContext_init_def Executor_init_def v)
  have e: "validate ''Invalid'' False
        (Property (Object [(''address'', Property (Object []) False False ''Invalid'')])
           False False ''Invalid'')
        (PDict [(''address'', PStr ''Paris'')]) []
     = Inr []"
    by (simp add: validate_def validate_property.simps validate_object.simps add_if_error_def)
  from v c e show ?thesis by blast
qed

section \<open>The coordinator: calls made and outcomes\<close>

lemma resolve_secret_keys_no_execute:
  "resolve_secret_keys env ctx ks = (r, cs) \<Longrightarrow> Call_execute \<notin> set cs"
proof (induction ks arbitrary: ctx r cs)
  case Nil
  then show ?case by auto
next
  case (Cons key ks)
  show ?case
  proof (cases "get_secret env key")
    case (Inl e)
    with Cons.prems show ?thesis by auto
  next
    case (Inr secret)
    let ?ctx' = "case secret of None \<Rightarrow> ctx
                 | Some (k, v) \<Rightarrow> ctx\<lparr>secrets := dict_set (secrets ctx) k v\<rparr>"
    obtain r' cs' where rest: "resolve_secret_keys env ?ctx' ks = (r', cs')"
      by (cases "resolve_secret_keys env ?ctx' ks")
    from Cons.prems Inr rest have "cs = Call_get_secret key # cs'"
      by (simp add: Let_def)
    with Cons.IH[OF rest] show ?thesis by simp
  qed
qed

lemma prepare_no_execute:
  "prepare_operator_executor env u rp = (r, cs) \<Longrightarrow> Call_execute \<notin> set cs"
  by (auto simp: prepare_operator_executor_def resolve_secret_values_def Let_def
      split: option.splits sum.splits prod.splits if_splits
      dest: resolve_secret_keys_no_execute)

lemmas example_defs =
  execute_or_delegate_operator_def prepare_operator_executor_def example_env_def
  example_registry_def example_operator_def resolve_secret_values_def
  ValidationContext_init_def ExecutionContext_init_def Executor_init_def
  run_sync_task_def snapshot_def serialize_def

text \<open>
  C6. Once the operator has been prepared and \<open>resolve_delegation\<close> has returned
  a true value, the coordinator makes no call to \<open>execute\<close>: after the decision
  its only call is the hand-off to the queue, of the operator's URI, the dict
  \<open>{"request_params": ..., "params": ...}\<close> of the context and the operator's
  delegation target. When the queue returns the queued document, the result
  returned is delegated, carries no error, and holds the snapshot of that
  document: its fields, with the entry \<open>context\<close> holding the dict
  \<open>{"request_params": ..., "params": ...}\<close> of the document's own context (None
  when the document has no context).
\<close>

theorem delegation_skips_execute:
  "prepare_operator_executor env u rp = (Inr (Ready op ctx), calls)
   \<and> resolve_delegation op ctx = (Inr dlg, ctx') \<and> truthy dlg
   \<longrightarrow> Call_execute \<notin> set (snd (execute_or_delegate_operator env u rp))
     \<and> snd (execute_or_delegate_operator env u rp) =
         calls @ [Call_resolve_delegation,
                  Call_queue_operation (uri op)
                    (PDict [(''request_params'', PDict (request_params ctx')),
                            (''params'', ctx_params ctx')])
                    (delegation_target op)]
     \<and> (\<forall>doc. queue_operation env (uri op)
                 (PDict [(''request_params'', PDict (request_params ctx')),
                         (''params'', ctx_params ctx')])
                 (delegation_target op) = Inr doc
          \<longrightarrow> fst (execute_or_delegate_operator env u rp) =
                Inr \<lparr>result =
                       PDict ((''context'',
                               (case doc_context doc of
                                  None \<Rightarrow> PNone
                                | Some c \<Rightarrow> PDict [(''request_params'', PDict (request_params c)),
                                                   (''params'', ctx_params c)]))
                              # doc_fields doc),
                     res_executor = executor ctx', error = None,
                     validation_ctx = None, delegated = True\<rparr>)"
proof (intro impI)
  assume a: "prepare_operator_executor env u rp = (Inr (Ready op ctx), calls)
   \<and> resolve_delegation op ctx = (Inr dlg, ctx') \<and> truthy dlg"
  let ?handed = "PDict [(''request_params'', PDict (request_params ctx')),
                        (''params'', ctx_params ctx')]"
  have handed: "serialize ctx' = ?handed" by (simp add: serialize_def)
  from a prepare_no_execute[of env u rp] have nc: "Call_execute \<notin> set calls" by blast
  from a have tr: "snd (execute_or_delegate_operator env u rp) =
         calls @ [Call_resolve_delegation,
                  Call_queue_operation (uri op) ?handed (delegation_target op)]"
    by (auto simp: execute_or_delegate_operator_def handed split: sum.splits)
  from tr nc have 1: "Call_execute \<notin> set (snd (execute_or_delegate_operator env u rp))"
    by simp
  have 2: "\<forall>doc. queue_operation env (uri op) ?handed (delegation_target op) = Inr doc
          \<longrightarrow> fst (execute_or_delegate_operator env u rp) =
                Inr \<lparr>result =
                       PDict ((''context'',
                               (case doc_context doc of
                                  None \<Rightarrow> PNone
                                | Some c \<Rightarrow> PDict [(''request_params'', PDict (request_params c)),
                                                   (''params'', ctx_params c)]))
                              # doc_fields doc),
                     res_executor = executor ctx', error = None,
                     validation_ctx = None, delegated = True\<rparr>"
  proof (intro allI impI)
    fix doc
    assume q: "queue_operation env (uri op) ?handed (delegation_target op) = Inr doc"
    have snap: "snapshot doc =
                  PDict ((''context'',
                          (case doc_context doc of
                             None \<Rightarrow> PNone
                           | Some c \<Rightarrow> PDict [(''request_params'', PDict (request_params c)),
                                              (''params'', ctx_params c)]))
                         # doc_fields doc)"
      by (simp add: snapshot_def serialize_def split: option.splits)
    from a q show "fst (execute_or_delegate_operator env u rp) =
                Inr \<lparr>result =
                       PDict ((''context'',
                               (case doc_context doc of
                                  None \<Rightarrow> PNone
                                | Some c \<Rightarrow> PDict [(''request_params'', PDict (request_params c)),
                                                   (''params'', ctx_params c)]))
                              # doc_fields doc),
                     res_executor = executor ctx', error = None,
                     validation_ctx = None, delegated = True\<rparr>"
      by (simp add: execute_or_delegate_operator_def handed snap)
  qed
  from 1 tr 2 show "Call_execute \<notin> set (snd (execute_or_delegate_operator env u rp))
     \<and> snd (execute_or_delegate_operator env u rp) =
         calls @ [Call_resolve_delegation,
                  Call_queue_operation (uri op) ?handed (delegation_target op)]
     \<and> (\<forall>doc. queue_operation env (uri op) ?handed (delegation_target op) = Inr doc
          \<longrightarrow> fst (execute_or_delegate_operator env u rp) =
                Inr \<lparr>result =
                       PDict ((''context'',
                               (case doc_context doc of
                                  None \<Rightarrow> PNone
                                | Some c \<Rightarrow> PDict [(''request_params'', PDict (request_params c)),
                                                   (''params'', ctx_params c)]))
                              # doc_fields doc),
                     res_executor = executor ctx', error = None,
                     validation_ctx = None, delegated = True\<rparr>)"
    by blast
qed

theorem delegation_skips_execute_witness:
  "Call_execute \<notin> set (snd (execute_or_delegate_operator example_env ''ns/delegated''
       [(''dataset_name'', PStr ''quickstart''), (''params'', PDict [(''limit'', PInt 10)])]))
   \<and> snd (execute_or_delegate_operator example_env ''ns/delegated''
       [(''dataset_name'', PStr ''quickstart''), (''params'', PDict [(''limit'', PInt 10)])]) =
       [Call_operator_exists ''ns/delegated'', Call_get_operator ''ns/delegated'',
        Call_get_secret ''API_KEY'', Call_resolve_input, Call_resolve_delegation,
        Call_queue_operation ''ns/delegated''
          (PDict [(''request_params'',
                     PDict [(''dataset_name'', PStr ''quickstart''),
                            (''params'', PDict [(''limit'', PInt 10)])]),
                  (''params'', PDict [(''limit'', PInt 10)])])
          (PStr ''orchestrator'')]
   \<and> fst (execute_or_delegate_operator example_env ''ns/delegated''
       [(''dataset_name'', PStr ''quickstart''), (''params'', PDict [(''limit'', PInt 10)])]) =
       Inr \<lparr>result =
              PDict [(''context'',
                        PDict [(''request_params'',
                                  PDict [(''dataset_name'', PStr ''quickstart''),
                                         (''params'', PDict [(''limit'', PInt 10)])]),
                               (''params'', PDict [(''limit'', PInt 10)])]),
                     (''operator'', PStr ''ns/delegated''),
                     (''delegation_target'', PStr ''orchestrator''),
                     (''run_state'', PStr ''queued'')],
            res_executor = Some \<lparr>requests = [], logs = []\<rparr>, error = None,
            validation_ctx = None, delegated = True\<rparr>"
proof -
  let ?rp = "[(''dataset_name'', PStr ''quickstart''), (''params'', PDict [(''limit'', PInt 10)])]"
  let ?op = "example_operator ''ns/delegated'' (Inr None) (Inr (PBool True)) (Inr PNone)"
  let ?ctx = "ExecutionContext_init (Some ?rp) (Some (Executor_init None None))"
  let ?calls = "[Call_operator_exists ''ns/delegated'', Call_get_operator ''ns/delegated'',
                 Call_get_secret ''API_KEY'', Call_resolve_input]"
  let ?handed = "PDict [(''request_params'', PDict ?rp),
                        (''params'', PDict [(''limit'', PInt 10)])]"
  let ?doc = "\<lparr>doc_context = Some (ExecutionContext_init (Some ?rp) None),
               doc_fields = [(''operator'', PStr ''ns/delegated''),
                             (''delegation_target'', PStr ''orchestrator''),
                             (''run_state'', PStr ''queued'')]\<rparr>"
  have p: "prepare_operator_executor example_env ''ns/delegated'' ?rp = (Inr (Ready ?op ?ctx), ?calls)"
    by (simp add: example_defs)
  have d: "resolve_delegation ?op ?ctx = (Inr (PBool True), ?ctx)"
    by (simp add: example_operator_def)
  have c: "request_params ?ctx = ?rp" "ctx_params ?ctx = PDict [(''limit'', PInt 10)]"
          "executor ?ctx = Some \<lparr>requests = [], logs = []\<rparr>"
    by (simp_all add: ExecutionContext_init_def Executor_init_def)
  have o: "uri ?op = ''ns/delegated''" "delegation_target ?op = PStr ''orchestrator''"
    by (simp_all add: example_operator_def)
  have q: "queue_operation example_env ''ns/delegated'' ?handed (PStr ''orchestrator'') = Inr ?doc"
    by (simp add: example_env_def context_of_serialized_def)
  from delegation_skips_execute
         [of example_env "''ns/delegated''" ?rp ?op ?ctx ?calls "PBool True" ?ctx] p d
  have 1: "Call_execute \<notin> set (snd (execute_or_delegate_operator example_env ''ns/delegated'' ?rp))"
    and 2: "snd (execute_or_delegate_operator example_env ''ns/delegated'' ?rp) =
              ?calls @ [Call_resolve_delegation,
                        Call_queue_operation ''ns/delegated'' ?handed (PStr ''orchestrator'')]"
    and 3: "\<forall>doc. queue_operation example_env ''ns/delegated'' ?handed (PStr ''orchestrator'')
                   = Inr doc
              \<longrightarrow> fst (execute_or_delegate_operator example_env ''ns/delegated'' ?rp) =
                Inr \<lparr>result =
                       PDict ((''context'',
                               (case doc_context doc of
                                  None \<Rightarrow> PNone
                                | Some c \<Rightarrow> PDict [(''request_params'', PDict (request_params c)),
                                                   (''params'', ctx_params c)]))
                              # doc_fields doc),
                     res_executor = Some \<lparr>requests = [], logs = []\<rparr>, error = None,
                     validation_ctx = None, delegated = True\<rparr>"
    by (simp_all add: c o)
  from 3 q have 4: "fst (execute_or_delegate_operator example_env ''ns/delegated'' ?rp) =
       Inr \<lparr>result =
              PDict [(''context'', ?handed),
                     (''operator'', PStr ''ns/delegated''),
                     (''delegation_target'', PStr ''orchestrator''),
                     (''run_state'', PStr ''queued'')],
            res_executor = Some \<lparr>requests = [], logs = []\<rparr>, error = None,
            validation_ctx = None, delegated = True\<rparr>"
    by (simp add: ExecutionContext_init_def)
  from 1 2 4 show ?thesis by simp
qed

text \<open>
  C7. Every result the coordinator returns that is delegated carries no error, and
  so does every result \<open>prepare_operator_executor\<close> builds (it is not delegated).
  When \<open>queue_operation\<close> raises, the coordinator returns a result that is not
  delegated and whose error is the formatted traceback of the exception.
\<close>

theorem delegated_result_has_no_error:
  "(fst (execute_or_delegate_operator env u rp) = Inr r \<longrightarrow> delegated r \<longrightarrow> error r = None)
   \<and> (fst (prepare_operator_executor env u rp) = Inr (Invalid r') \<longrightarrow> \<not> delegated r')
   \<and> (prepare_operator_executor env u rp = (Inr (Ready op ctx), calls)
      \<and> resolve_delegation op ctx = (Inr dlg, ctx') \<and> truthy dlg
      \<and> queue_operation env (uri op) (serialize ctx') (delegation_target op) = Inl e
      \<longrightarrow> fst (execute_or_delegate_operator env u rp) =
            Inr \<lparr>result = PNone, res_executor = executor ctx', error = Some (format_exc env e),
                 validation_ctx = None, delegated = False\<rparr>)"
proof (intro conjI impI)
  assume "fst (execute_or_delegate_operator env u rp) = Inr r" and "delegated r"
  then show "error r = None"
    by (auto simp: execute_or_delegate_operator_def
        split: prod.splits sum.splits prepared.splits if_splits)
next
  assume "fst (prepare_operator_executor env u rp) = Inr (Invalid r')"
  then show "\<not> delegated r'"
    by (auto simp: prepare_operator_executor_def Let_def
        split: option.splits prod.splits sum.splits if_splits)
next
  assume "prepare_operator_executor env u rp = (Inr (Ready op ctx), calls)
      \<and> resolve_delegation op ctx = (Inr dlg, ctx') \<and> truthy dlg
      \<and> queue_operation env (uri op) (serialize ctx') (delegation_target op) = Inl e"
  then show "fst (execute_or_delegate_operator env u rp) =
            Inr \<lparr>result = PNone, res_executor = executor ctx', error = Some (format_exc env e),
                 validation_ctx = None, delegated = False\<rparr>"
    by (auto simp: execute_or_delegate_operator_def)
qed

theorem delegated_result_has_no_error_witness:
  "fst (execute_or_delegate_operator example_env ''ns/unqueueable'' []) =
     Inr \<lparr>result = PNone, res_executor = Some \<lparr>requests = [], logs = []\<rparr>,
          error = Some ''Traceback (most recent call last)'',
          validation_ctx = None, delegated = False\<rparr>
   \<and> (\<exists>r. fst (execute_or_delegate_operator example_env ''ns/delegated'' []) = Inr r
          \<and> delegated r \<and> error r = None)"
proof -
  let ?op = "example_operator ''ns/unqueueable'' (Inr None) (Inr (PBool True)) (Inr PNone)"
  let ?ctx = "ExecutionContext_init (Some []) (Some (Executor_init None None))"
  let ?calls = "[Call_operator_exists ''ns/unqueueable'', Call_get_operator ''ns/unqueueable'',
                 Call_get_secret ''API_KEY'', Call_resolve_input]"
  have p: "prepare_operator_executor example_env ''ns/unqueueable'' [] = (Inr (Ready ?op ?ctx), ?calls)"
    by (simp add: example_defs)
  have d: "resolve_delegation ?op ?ctx = (Inr (PBool True), ?ctx)"
    by (simp add: example_operator_def)
  have q: "queue_operation example_env (uri ?op) (serialize ?ctx) (delegation_target ?op)
             = Inl (OtherError ''queue down'')"
    by (simp add: example_env_def example_operator_def)
  from delegated_result_has_no_error
         [of example_env "''ns/unqueueable''" "[]" _ _ ?op ?ctx ?calls "PBool True" ?ctx
             "OtherError ''queue down''"] p d q
  have 1: "fst (execute_or_delegate_operator example_env ''ns/unqueueable'' []) =
     Inr \<lparr>result = PNone, res_executor = executor ?ctx,
          error = Some (format_exc example_env (OtherError ''queue down'')),
          validation_ctx = None, delegated = False\<rparr>"
    by simp
  obtain r where r: "fst (execute_or_delegate_operator example_env ''ns/delegated'' []) = Inr r"
    and dr: "delegated r"
    by (simp add: example_defs)
  from delegated_result_has_no_error[of example_env "''ns/delegated''" "[]" r] r dr
  have "error r = None" by blast
  with 1 r dr show ?thesis
    by (auto simp: example_env_def ExecutionContext_init_def Executor_init_def)
qed

section \<open>Failures: raised or captured\<close>

lemma invalid_context_has_errors:
  "ValidationContext_init dm ctx ip d = Inr vc \<Longrightarrow> invalid vc \<Longrightarrow>
   \<exists>e es. errors vc = e # es"
  by (cases ip)
     (auto simp: ValidationContext_init_def neq_Nil_conv split: sum.splits)

lemma prepare_invalid_result:
  assumes "registry env u = Some op"
    and "resolve_secret_values env (ExecutionContext_init (Some rp) (Some (Executor_init None None)))
           (plugin_secrets op) = (Inr ctx1, calls1)"
    and "resolve_input op ctx1 = (Inr ip, ctx2)"
    and "ValidationContext_init (default_error_message env) ctx2 ip
           (config_disable_schema_validation op) = Inr vc"
    and "invalid vc"
  shows "fst (prepare_operator_executor env u rp) =
           Inr (Invalid \<lparr>result = PNone, res_executor = None, error = Some ''Validation error'',
                          validation_ctx = Some vc, delegated = False\<rparr>)"
  using assms by (simp add: prepare_operator_executor_def Let_def)

lemma coordinator_after_prepare:
  "fst (prepare_operator_executor env u rp) = Inl e \<Longrightarrow>
     fst (execute_or_delegate_operator env u rp) = Inl e"
  "fst (prepare_operator_executor env u rp) = Inr (Invalid r) \<Longrightarrow>
     fst (execute_or_delegate_operator env u rp) =
       Inl (case to_exception r of Inl x \<Rightarrow> x | Inr x \<Rightarrow> x)"
  by (auto simp: execute_or_delegate_operator_def split: prod.splits sum.splits)

lemma invalid_raises_execution_error:
  assumes "registry env u = Some op"
    and "resolve_secret_values env (ExecutionContext_init (Some rp) (Some (Executor_init None None)))
           (plugin_secrets op) = (Inr ctx1, calls1)"
    and "resolve_input op ctx1 = (Inr ip, ctx2)"
    and "ValidationContext_init (default_error_message env) ctx2 ip
           (config_disable_schema_validation op) = Inr vc"
    and "invalid vc"
    and "errors vc = e # es"
  shows "fst (execute_or_delegate_operator env u rp) =
           Inl (ExecutionError (Some (''Validation error'' @ ''. Path: '' @ lstrip_dot (path e)
                                        @ ''. Reason: '' @ reason e)))"
  using coordinator_after_prepare(2)[OF prepare_invalid_result[OF assms(1-5)]] assms(5,6)
  by (simp add: to_exception_def)

text \<open>
  C1, as amended. The coordinator captures two kinds of failure and returns them
  as a result with the error set to the formatted traceback: an exception raised
  by \<open>queue_operation\<close> on the delegation path, and an exception raised by the
  operator's \<open>execute\<close>. Once the delegation decision has been made it always
  returns a result. Everything before that is raised to the caller: an unknown
  operator raises \<open>ValueError\<close>; an exception raised by secret resolution, by
  \<open>resolve_input\<close>, by the validation or by \<open>resolve_delegation\<close> leaves the
  coordinator as it is; and invalid inputs make the coordinator raise an
  \<open>ExecutionError\<close>.
\<close>

theorem failures_raised_or_captured:
  "(registry env u = None \<longrightarrow>
      fst (execute_or_delegate_operator env u rp) =
        Inl (ValueError (''Operator '' @ [CHR 0x27] @ u @ [CHR 0x27] @ '' does not exist'')))
   \<and> (registry env u = Some op \<longrightarrow>
        (fst (resolve_secret_values env
                (ExecutionContext_init (Some rp) (Some (Executor_init None None)))
                (plugin_secrets op)) = Inl e
           \<longrightarrow> fst (execute_or_delegate_operator env u rp) = Inl e)
        \<and> (\<forall>ctx1 calls1.
              resolve_secret_values env
                (ExecutionContext_init (Some rp) (Some (Executor_init None None)))
                (plugin_secrets op) = (Inr ctx1, calls1) \<longrightarrow>
              (\<forall>ctx2. resolve_input op ctx1 = (Inl e, ctx2)
                 \<longrightarrow> fst (execute_or_delegate_operator env u rp) = Inl e)
              \<and> (\<forall>ip ctx2. resolve_input op ctx1 = (Inr ip, ctx2) \<longrightarrow>
                   (ValidationContext_init (default_error_message env) ctx2 ip
                       (config_disable_schema_validation op) = Inl e
                      \<longrightarrow> fst (execute_or_delegate_operator env u rp) = Inl e)
                   \<and> (\<forall>vc. ValidationContext_init (default_error_message env) ctx2 ip
                              (config_disable_schema_validation op) = Inr vc \<and> invalid vc
                      \<longrightarrow> (\<exists>msg. fst (execute_or_delegate_operator env u rp)
                                    = Inl (ExecutionError (Some msg)))))))
   \<and> (prepare_operator_executor env u rp = (Inr (Ready op ctx), calls) \<longrightarrow>
        (resolve_delegation op ctx = (Inl e, ctx')
           \<longrightarrow> fst (execute_or_delegate_operator env u rp) = Inl e)
        \<and> (resolve_delegation op ctx = (Inr dlg, ctx') \<longrightarrow>
             (\<exists>r. fst (execute_or_delegate_operator env u rp) = Inr r)
             \<and> (truthy dlg
                  \<and> queue_operation env (uri op) (serialize ctx') (delegation_target op) = Inl e
                \<longrightarrow> fst (execute_or_delegate_operator env u rp) =
                      Inr \<lparr>result = PNone, res_executor = executor ctx',
                           error = Some (format_exc env e),
                           validation_ctx = None, delegated = False\<rparr>)
             \<and> (\<not> truthy dlg \<and> execute op ctx' = (Inl e, ctx'')
                \<longrightarrow> fst (execute_or_delegate_operator env u rp) =
                      Inr \<lparr>result = PNone, res_executor = executor ctx'',
                           error = Some (format_exc env e),
                           validation_ctx = None, delegated = False\<rparr>)))"
proof (intro conjI impI allI)
  assume "registry env u = None"
  then show "fst (execute_or_delegate_operator env u rp) =
        Inl (ValueError (''Operator '' @ [CHR 0x27] @ u @ [CHR 0x27] @ '' does not exist''))"
    by (simp add: execute_or_delegate_operator_def prepare_operator_executor_def)
next
  assume "registry env u = Some op"
    and "fst (resolve_secret_values env
                (ExecutionContext_init (Some rp) (Some (Executor_init None None)))
                (plugin_secrets op)) = Inl e"
  then have "fst (prepare_operator_executor env u rp) = Inl e"
    by (auto simp: prepare_operator_executor_def Let_def split: prod.splits sum.splits)
  then show "fst (execute_or_delegate_operator env u rp) = Inl e"
    by (rule coordinator_after_prepare(1))
next
  fix ctx1 calls1 ctx2
  assume "registry env u = Some op"
    and "resolve_secret_values env
                (ExecutionContext_init (Some rp) (Some (Executor_init None None)))
                (plugin_secrets op) = (Inr ctx1, calls1)"
    and "resolve_input op ctx1 = (Inl e, ctx2)"
  then have "fst (prepare_operator_executor env u rp) = Inl e"
    by (simp add: prepare_operator_executor_def Let_def)
  then show "fst (execute_or_delegate_operator env u rp) = Inl e"
    by (rule coordinator_after_prepare(1))
next
  fix ctx1 calls1 ip ctx2
  assume "registry env u = Some op"
    and "resolve_secret_values env
                (ExecutionContext_init (Some rp) (Some (Executor_init None None)))
                (plugin_secrets op) = (Inr ctx1, calls1)"
    and "resolve_input op ctx1 = (Inr ip, ctx2)"
    and "ValidationContext_init (default_error_message env) ctx2 ip
                       (config_disable_schema_validation op) = Inl e"
  then have "fst (prepare_operator_executor env u rp) = Inl e"
    by (simp add: prepare_operator_executor_def Let_def)
  then show "fst (execute_or_delegate_operator env u rp) = Inl e"
    by (rule coordinator_after_prepare(1))
next
  fix ctx1 calls1 ip ctx2 vc
  assume a: "registry env u = Some op"
    "resolve_secret_values env
                (ExecutionContext_init (Some rp) (Some (Executor_init None None)))
                (plugin_secrets op) = (Inr ctx1, calls1)"
    "resolve_input op ctx1 = (Inr ip, ctx2)"
    and v: "ValidationContext_init (default_error_message env) ctx2 ip
                              (config_disable_schema_validation op) = Inr vc \<and> invalid vc"
  from v invalid_context_has_errors obtain x xs where "errors vc = x # xs" by blast
  from invalid_raises_execution_error[OF a v[THEN conjunct1] v[THEN conjunct2] this]
  show "\<exists>msg. fst (execute_or_delegate_operator env u rp) = Inl (ExecutionError (Some msg))"
    by blast
next
  assume "prepare_operator_executor env u rp = (Inr (Ready op ctx), calls)"
    and "resolve_delegation op ctx = (Inl e, ctx')"
  then show "fst (execute_or_delegate_operator env u rp) = Inl e"
    by (simp add: execute_or_delegate_operator_def)
next
  assume "prepare_operator_executor env u rp = (Inr (Ready op ctx), calls)"
    and "resolve_delegation op ctx = (Inr dlg, ctx')"
  then show "\<exists>r. fst (execute_or_delegate_operator env u rp) = Inr r"
    by (auto simp: execute_or_delegate_operator_def split: sum.splits prod.splits)
next
  assume "prepare_operator_executor env u rp = (Inr (Ready op ctx), calls)"
    and "resolve_delegation op ctx = (Inr dlg, ctx')"
    and "truthy dlg
          \<and> queue_operation env (uri op) (serialize ctx') (delegation_target op) = Inl e"
  then show "fst (execute_or_delegate_operator env u rp) =
                      Inr \<lparr>result = PNone, res_executor = executor ctx',
                           error = Some (format_exc env e),
                           validation_ctx = None, delegated = False\<rparr>"
    by (simp add: execute_or_delegate_operator_def)
next
  assume "prepare_operator_executor env u rp = (Inr (Ready op ctx), calls)"
    and "resolve_delegation op ctx = (Inr dlg, ctx')"
    and "\<not> truthy dlg \<and> execute op ctx' = (Inl e, ctx'')"
  then show "fst (execute_or_delegate_operator env u rp) =
                      Inr \<lparr>result = PNone, res_executor = executor ctx'',
                           error = Some (format_exc env e),
                           validation_ctx = None, delegated = False\<rparr>"
    by (simp add: execute_or_delegate_operator_def run_sync_task_def)
qed

text \<open>
  The claim as stated fails for an operator that is not registered: the
  coordinator raises \<open>ValueError\<close> instead of returning a failed result.
\<close>

theorem unknown_operator_raises_counterexample:
  "fst (execute_or_delegate_operator example_env ''ns/missing'' [])
     = Inl (ValueError ''Operator 'ns/missing' does not exist'')"
  by (simp add: execute_or_delegate_operator_def prepare_operator_executor_def
        example_env_def example_registry_def)

theorem failures_raised_or_captured_witness:
  "fst (execute_or_delegate_operator example_env ''ns/unregistered'' [])
     = Inl (ValueError ''Operator 'ns/unregistered' does not exist'')
   \<and> fst (execute_or_delegate_operator example_env ''ns/no_schema'' [])
     = Inl (OtherError ''no schema'')
   \<and> fst (execute_or_delegate_operator example_env ''ns/undecided'' [])
     = Inl (OtherError ''no decision'')
   \<and> fst (execute_or_delegate_operator example_env ''ns/failing'' [])
     = Inr \<lparr>result = PNone, res_executor = Some \<lparr>requests = [], logs = []\<rparr>,
            error = Some ''Traceback (most recent call last)'',
            validation_ctx = None, delegated = False\<rparr>
   \<and> fst (execute_or_delegate_operator example_env ''ns/unqueueable'' [])
     = Inr \<lparr>result = PNone, res_executor = Some \<lparr>requests = [], logs = []\<rparr>,
            error = Some ''Traceback (most recent call last)'',
            validation_ctx = None, delegated = False\<rparr>
   \<and> (\<exists>msg. fst (execute_or_delegate_operator example_env ''ns/say_hello'' [])
            = Inl (ExecutionError (Some msg)))
   \<and> fst (execute_or_delegate_operator
            (example_env\<lparr>get_secret := \<lambda>key. Inl (OtherError ''vault sealed'')\<rparr>)
            ''ns/say_hello'' [])
     = Inl (OtherError ''vault sealed'')"
proof -
  let ?ctx = "ExecutionContext_init (Some []) (Some (Executor_init None None))"
  let ?calls = "[Call_get_secret ''API_KEY'']"
  have sec: "resolve_secret_values example_env ?ctx (Some [''API_KEY'']) = (Inr ?ctx, ?calls)"
    by (simp add: resolve_secret_values_def example_env_def)
  \<comment> \<open>an operator that is not registered\<close>
  have "registry example_env ''ns/unregistered'' = None"
    by (simp add: example_env_def example_registry_def)
  with failures_raised_or_captured[where env = example_env and u = "''ns/unregistered''"
                                      and rp = "[]"]
  have 1: "fst (execute_or_delegate_operator example_env ''ns/unregistered'' [])
     = Inl (ValueError ''Operator 'ns/unregistered' does not exist'')"
    by simp
  \<comment> \<open>\<open>resolve_input\<close> raises\<close>
  let ?op2 = "example_operator ''ns/no_schema'' (Inl (OtherError ''no schema''))
                (Inr (PBool False)) (Inr PNone)"
  have r2: "registry example_env ''ns/no_schema'' = Some ?op2"
    by (simp add: example_env_def example_registry_def)
  have s2: "resolve_secret_values example_env ?ctx (plugin_secrets ?op2) = (Inr ?ctx, ?calls)"
    using sec by (simp add: example_operator_def)
  have i2: "resolve_input ?op2 ?ctx = (Inl (OtherError ''no schema''), ?ctx)"
    by (simp add: example_operator_def)
  from failures_raised_or_captured[where env = example_env and u = "''ns/no_schema''"
          and rp = "[]" and op = ?op2 and e = "OtherError ''no schema''"] r2 s2 i2
  have 2: "fst (execute_or_delegate_operator example_env ''ns/no_schema'' [])
     = Inl (OtherError ''no schema'')"
    by blast
  \<comment> \<open>\<open>resolve_delegation\<close> raises\<close>
  let ?op3 = "example_operator ''ns/undecided'' (Inr None) (Inl (OtherError ''no decision''))
                (Inr PNone)"
  let ?calls3 = "[Call_operator_exists ''ns/undecided'', Call_get_operator ''ns/undecided'',
                  Call_get_secret ''API_KEY'', Call_resolve_input]"
  have p3: "prepare_operator_executor example_env ''ns/undecided'' [] = (Inr (Ready ?op3 ?ctx), ?calls3)"
    by (simp add: example_defs)
  have d3: "resolve_delegation ?op3 ?ctx = (Inl (OtherError ''no decision''), ?ctx)"
    by (simp add: example_operator_def)
  from failures_raised_or_captured[where env = example_env and u = "''ns/undecided''"
          and rp = "[]" and op = ?op3 and e = "OtherError ''no decision''" and ctx = ?ctx
          and calls = ?calls3 and ctx' = ?ctx] p3 d3
  have 3: "fst (execute_or_delegate_operator example_env ''ns/undecided'' [])
     = Inl (OtherError ''no decision'')"
    by blast
  \<comment> \<open>\<open>execute\<close> raises\<close>
  let ?op4 = "example_operator ''ns/failing'' (Inr None) (Inr (PBool False))
                (Inl (OtherError ''boom''))"
  let ?calls4 = "[Call_operator_exists ''ns/failing'', Call_get_operator ''ns/failing'',
                  Call_get_secret ''API_KEY'', Call_resolve_input]"
  have p4: "prepare_operator_executor example_env ''ns/failing'' [] = (Inr (Ready ?op4 ?ctx), ?calls4)"
    by (simp add: example_defs)
  have d4: "resolve_delegation ?op4 ?ctx = (Inr (PBool False), ?ctx)"
    by (simp add: example_operator_def)
  have x4: "\<not> truthy (PBool False) \<and> execute ?op4 ?ctx = (Inl (OtherError ''boom''), ?ctx)"
    by (simp add: example_operator_def)
  from failures_raised_or_captured[where env = example_env and u = "''ns/failing''"
          and rp = "[]" and op = ?op4 and e = "OtherError ''boom''" and ctx = ?ctx
          and calls = ?calls4 and ctx' = ?ctx and dlg = "PBool False" and ctx'' = ?ctx] p4 d4 x4
  have "fst (execute_or_delegate_operator example_env ''ns/failing'' [])
     = Inr \<lparr>result = PNone, res_executor = executor ?ctx,
            error = Some (format_exc example_env (OtherError ''boom'')),
            validation_ctx = None, delegated = False\<rparr>"
    by blast
  then have 4: "fst (execute_or_delegate_operator example_env ''ns/failing'' [])
     = Inr \<lparr>result = PNone, res_executor = Some \<lparr>requests = [], logs = []\<rparr>,
            error = Some ''Traceback (most recent call last)'',
            validation_ctx = None, delegated = False\<rparr>"
    by (simp add: example_env_def ExecutionContext_init_def Executor_init_def)
  \<comment> \<open>\<open>queue_operation\<close> raises\<close>
  let ?op5 = "example_operator ''ns/unqueueable'' (Inr None) (Inr (PBool True)) (Inr PNone)"
  let ?calls5 = "[Call_operator_exists ''ns/unqueueable'', Call_get_operator ''ns/unqueueable'',
                  Call_get_secret ''API_KEY'', Call_resolve_input]"
  have p5: "prepare_operator_executor example_env ''ns/unqueueable'' [] = (Inr (Ready ?op5 ?ctx), ?calls5)"
    by (simp add: example_defs)
  have d5: "resolve_delegation ?op5 ?ctx = (Inr (PBool True), ?ctx)"
    by (simp add: example_operator_def)
  have q5: "truthy (PBool True)
            \<and> queue_operation example_env (uri ?op5) (serialize ?ctx) (delegation_target ?op5)
                = Inl (OtherError ''queue down'')"
    by (simp add: example_env_def example_operator_def)
  from failures_raised_or_captured[where env = example_env and u = "''ns/unqueueable''"
          and rp = "[]" and op = ?op5 and e = "OtherError ''queue down''" and ctx = ?ctx
          and calls = ?calls5 and ctx' = ?ctx and dlg = "PBool True"] p5 d5 q5
  have "fst (execute_or_delegate_operator example_env ''ns/unqueueable'' [])
     = Inr \<lparr>result = PNone, res_executor = executor ?ctx,
            error = Some (format_exc example_env (OtherError ''queue down'')),
            validation_ctx = None, delegated = False\<rparr>"
    by blast
  then have 5: "fst (execute_or_delegate_operator example_env ''ns/unqueueable'' [])
     = Inr \<lparr>result = PNone, res_executor = Some \<lparr>requests = [], logs = []\<rparr>,
            error = Some ''Traceback (most recent call last)'',
            validation_ctx = None, delegated = False\<rparr>"
    by (simp add: example_env_def ExecutionContext_init_def Executor_init_def)
  \<comment> \<open>invalid inputs\<close>
  let ?op6 = "example_operator ''ns/say_hello'' (Inr (Some hello_inputs)) (Inr (PBool False))
                (Inr (PDict [(''greeting'', PStr ''Hello, Ada'')]))"
  let ?vc6 = "\<lparr>vctx_ctx = ?ctx, vctx_params = PDict [], inputs_property = Some hello_inputs,
               errors = [\<lparr>reason = ''Required property'', error_message = ''Invalid'',
                           path = ''.name'', custom = False\<rparr>],
               disable_schema_validation = False, invalid = True\<rparr>"
  have r6: "registry example_env ''ns/say_hello'' = Some ?op6"
    by (simp add: example_env_def example_registry_def)
  have s6: "resolve_secret_values example_env ?ctx (plugin_secrets ?op6) = (Inr ?ctx, ?calls)"
    using sec by (simp add: example_operator_def)
  have i6: "resolve_input ?op6 ?ctx = (Inr (Some hello_inputs), ?ctx)"
    by (simp add: example_operator_def)
  have v6: "ValidationContext_init (default_error_message example_env) ?ctx (Some hello_inputs)
              (config_disable_schema_validation ?op6) = Inr ?vc6 \<and> invalid ?vc6"
    by (simp add: ValidationContext_init_def ExecutionContext_init_def example_env_def
          example_operator_def hello_inputs_def validate_def validate_property.simps
          validate_object.simps add_if_error_def add_error_def ValidationError_init_def)
  from failures_raised_or_captured[where env = example_env and u = "''ns/say_hello''"
          and rp = "[]" and op = ?op6] r6 s6 i6 v6
  have 6: "\<exists>msg. fst (execute_or_delegate_operator example_env ''ns/say_hello'' [])
            = Inl (ExecutionError (Some msg))"
    by blast
  \<comment> \<open>the secrets resolver raises\<close>
  let ?env7 = "example_env\<lparr>get_secret := \<lambda>key. Inl (OtherError ''vault sealed'')\<rparr>"
  have r7: "registry ?env7 ''ns/say_hello'' = Some ?op6"
    by (simp add: example_env_def example_registry_def)
  have s7: "fst (resolve_secret_values ?env7 ?ctx (plugin_secrets ?op6))
              = Inl (OtherError ''vault sealed'')"
    by (simp add: resolve_secret_values_def example_operator_def)
  from failures_raised_or_captured[where env = ?env7 and u = "''ns/say_hello''"
          and rp = "[]" and op = ?op6 and e = "OtherError ''vault sealed''"] r7 s7
  have 7: "fst (execute_or_delegate_operator ?env7 ''ns/say_hello'' [])
             = Inl (OtherError ''vault sealed'')"
    by blast
  from 1 2 3 4 5 6 7 show ?thesis by blast
qed

section \<open>Invalid inputs\<close>

text \<open>
  C2, as amended. Whenever the validation of the inputs finds errors,
  \<open>prepare_operator_executor\<close> returns a failed result whose error is the base
  message "Validation error" and which carries the validation context with the
  full ordered list of errors; the coordinator then raises an \<open>ExecutionError\<close>
  whose message is the base message followed by the path (leading dots stripped)
  and the reason of the first error only. The raised error holds the message alone.
\<close>

theorem invalid_inputs_raise_first_error:
  "registry env u = Some op
   \<and> resolve_secret_values env (ExecutionContext_init (Some rp) (Some (Executor_init None None)))
        (plugin_secrets op) = (Inr ctx1, calls1)
   \<and> resolve_input op ctx1 = (Inr (Some ip), ctx2)
   \<and> validate (default_error_message env) (config_disable_schema_validation op) ip
        (ctx_params ctx2) [] = Inr (e # es)
   \<longrightarrow> fst (prepare_operator_executor env u rp) =
         Inr (Invalid \<lparr>result = PNone, res_executor = None, error = Some ''Validation error'',
                        validation_ctx =
                          Some \<lparr>vctx_ctx = ctx2, vctx_params = ctx_params ctx2,
                                inputs_property = Some ip, errors = e # es,
                                disable_schema_validation = config_disable_schema_validation op,
                                invalid = True\<rparr>,
                        delegated = False\<rparr>)
     \<and> fst (execute_or_delegate_operator env u rp) =
         Inl (ExecutionError (Some (''Validation error'' @ ''. Path: '' @ lstrip_dot (path e)
                                      @ ''. Reason: '' @ reason e)))"
proof (intro impI)
  assume a: "registry env u = Some op
   \<and> resolve_secret_values env (ExecutionContext_init (Some rp) (Some (Executor_init None None)))
        (plugin_secrets op) = (Inr ctx1, calls1)
   \<and> resolve_input op ctx1 = (Inr (Some ip), ctx2)
   \<and> validate (default_error_message env) (config_disable_schema_validation op) ip
        (ctx_params ctx2) [] = Inr (e # es)"
  let ?vc = "\<lparr>vctx_ctx = ctx2, vctx_params = ctx_params ctx2,
              inputs_property = Some ip, errors = e # es,
              disable_schema_validation = config_disable_schema_validation op,
              invalid = True\<rparr>"
  from a have vc: "ValidationContext_init (default_error_message env) ctx2 (Some ip)
                     (config_disable_schema_validation op) = Inr ?vc"
    by (simp add: ValidationContext_init_def)
  have iv: "invalid ?vc" and es: "errors ?vc = e # es" by simp_all
  from a have r: "registry env u = Some op"
    and s: "resolve_secret_values env
              (ExecutionContext_init (Some rp) (Some (Executor_init None None)))
              (plugin_secrets op) = (Inr ctx1, calls1)"
    and i: "resolve_input op ctx1 = (Inr (Some ip), ctx2)"
    by blast+
  from prepare_invalid_result[OF r s i vc iv]
       invalid_raises_execution_error[OF r s i vc iv es]
  show "fst (prepare_operator_executor env u rp) =
         Inr (Invalid \<lparr>result = PNone, res_executor = None, error = Some ''Validation error'',
                        validation_ctx = Some ?vc, delegated = False\<rparr>)
     \<and> fst (execute_or_delegate_operator env u rp) =
         Inl (ExecutionError (Some (''Validation error'' @ ''. Path: '' @ lstrip_dot (path e)
                                      @ ''. Reason: '' @ reason e)))"
    by blast
qed

text \<open>
  The claim as stated fails on invalid inputs: for \<open>ns/profile\<close> called with
  \<open>{"age": "x"}\<close> (the name is missing and the age is not a number) the
  coordinator returns no result at all. It raises an \<open>ExecutionError\<close>, which
  holds the message about the first error and no validation context.
\<close>

theorem invalid_inputs_raise_counterexample:
  "fst (execute_or_delegate_operator example_env ''ns/profile''
          [(''params'', PDict [(''age'', PStr ''x'')])])
     = Inl (ExecutionError (Some ''Validation error. Path: name. Reason: Required property''))"
  by (simp add: example_defs profile_inputs_def validate_def validate_property.simps
        validate_object.simps validate_primitive_def add_if_error_def add_error_def
        ValidationError_init_def to_exception_def lstrip_dot_def)

theorem invalid_inputs_raise_first_error_witness:
  "fst (prepare_operator_executor example_env ''ns/profile''
          [(''params'', PDict [(''address'', PDict [(''city'', PInt 5)])])])
     = Inr (Invalid
         \<lparr>result = PNone, res_executor = None, error = Some ''Validation error'',
          validation_ctx =
            Some \<lparr>vctx_ctx = ExecutionContext_init
                               (Some [(''params'', PDict [(''address'', PDict [(''city'', PInt 5)])])])
                               (Some (Executor_init None None)),
                  vctx_params = PDict [(''address'', PDict [(''city'', PInt 5)])],
                  inputs_property = Some profile_inputs,
                  errors = [\<lparr>reason = ''Required property'', error_message = ''Invalid'',
                              path = ''.name'', custom = False\<rparr>,
                            \<lparr>reason = ''Invalid value type'', error_message = ''Invalid'',
                              path = ''.address.city'', custom = False\<rparr>],
                  disable_schema_validation = False, invalid = True\<rparr>,
          delegated = False\<rparr>)
   \<and> fst (execute_or_delegate_operator example_env ''ns/profile''
          [(''params'', PDict [(''address'', PDict [(''city'', PInt 5)])])])
     = Inl (ExecutionError (Some ''Validation error. Path: name. Reason: Required property''))"
proof -
  let ?rp = "[(''params'', PDict [(''address'', PDict [(''city'', PInt 5)])])]"
  let ?ctx = "ExecutionContext_init (Some ?rp) (Some (Executor_init None None))"
  let ?op = "example_operator ''ns/profile'' (Inr (Some profile_inputs)) (Inr (PBool False))
               (Inr PNone)"
  let ?e1 = "\<lparr>reason = ''Required property'', error_message = ''Invalid'',
               path = ''.name'', custom = False\<rparr>"
  let ?e2 = "\<lparr>reason = ''Invalid value type'', error_message = ''Invalid'',
               path = ''.address.city'', custom = False\<rparr>"
  have r: "registry example_env ''ns/profile'' = Some ?op"
    by (simp add: example_env_def example_registry_def)
  have s: "resolve_secret_values example_env ?ctx (plugin_secrets ?op)
             = (Inr ?ctx, [Call_get_secret ''API_KEY''])"
    by (simp add: resolve_secret_values_def example_env_def example_operator_def)
  have i: "resolve_input ?op ?ctx = (Inr (Some profile_inputs), ?ctx)"
    by (simp add: example_operator_def)
  have p: "ctx_params ?ctx = PDict [(''address'', PDict [(''city'', PInt 5)])]"
    by (simp add: ExecutionContext_init_def)
  have v: "validate (default_error_message example_env) (config_disable_schema_validation ?op)
             profile_inputs (ctx_params ?ctx) [] = Inr (?e1 # [?e2])"
    by (simp add: p example_env_def example_operator_def profile_inputs_def validate_def
          validate_property.simps validate_object.simps validate_primitive_def
          add_if_error_def add_error_def ValidationError_init_def)
  from invalid_inputs_raise_first_error
         [of example_env "''ns/profile''" ?op ?rp ?ctx "[Call_get_secret ''API_KEY'']"
             profile_inputs ?ctx ?e1 "[?e2]"] r s i v
  have "fst (prepare_operator_executor example_env ''ns/profile'' ?rp) =
         Inr (Invalid \<lparr>result = PNone, res_executor = None, error = Some ''Validation error'',
                        validation_ctx =
                          Some \<lparr>vctx_ctx = ?ctx, vctx_params = ctx_params ?ctx,
                                inputs_property = Some profile_inputs, errors = ?e1 # [?e2],
                                disable_schema_validation = config_disable_schema_validation ?op,
                                invalid = True\<rparr>,
                        delegated = False\<rparr>)"
    and "fst (execute_or_delegate_operator example_env ''ns/profile'' ?rp) =
         Inl (ExecutionError (Some (''Validation error'' @ ''. Path: '' @ lstrip_dot (path ?e1)
                                      @ ''. Reason: '' @ reason ?e1)))"
    by blast+
  then show ?thesis
    by (simp add: p example_operator_def lstrip_dot_def)
qed

end
